(* ===== verification/Prelude.thy ===== *)
theory Prelude
  imports Complex_Main "HOL-Library.Word"
begin

text \<open>
  Shared vocabulary of the development: bytes as 8-bit words, the little-endian
  reading and writing of integers that Python's \<open>struct\<close> and \<open>wave\<close> modules
  perform, propagation of Python exceptions as the left side of a sum, and the
  exception values that the two front ends of \<open>src/stt-engine\<close> raise and catch.
\<close>

type_synonym byte = "8 word"

named_theorems model_eval "rules that evaluate the model on concrete inputs"

subsection \<open>Little-endian integers\<close>

text \<open>
  \<open>le_bytes n v\<close> is the \<open>n\<close>-byte little-endian two's-complement image of \<open>v\<close>:
  the low byte first, then the rest shifted right arithmetically (Python's \<open>>>\<close>, i.e.\
  floor division by 256). \<open>le_value bs\<close> reads a byte string as an unsigned
  little-endian number.
\<close>

fun le_bytes :: "nat \<Rightarrow> int \<Rightarrow> byte list" where
  "le_bytes 0 v = []"
| "le_bytes (Suc n) v = word_of_int v # le_bytes n (v div 256)"

fun le_value :: "byte list \<Rightarrow> int" where
  "le_value [] = 0"
| "le_value (b # bs) = uint b + 256 * le_value bs"

subsection \<open>Byte-string literals\<close>

text \<open>\<open>ascii s\<close> is the Python literal \<open>b's'\<close> for an ASCII string \<open>s\<close>.\<close>

definition ascii :: "string \<Rightarrow> byte list" where
  "ascii s = map (\<lambda>c. of_nat (of_char c)) s"

subsection \<open>Exceptions\<close>

text \<open>
  Python code that raises is modelled as a function into \<open>py_exc + 'a\<close>: \<open>Inl e\<close>
  is the exception \<open>e\<close> in flight, \<open>Inr x\<close> a normal return. \<open>sbind\<close> is the
  sequencing of two statements: an exception in the first skips the second.
\<close>

definition sbind :: "'e + 'a \<Rightarrow> ('a \<Rightarrow> 'e + 'b) \<Rightarrow> 'e + 'b" where
  "sbind m f = (case m of Inl e \<Rightarrow> Inl e | Inr a \<Rightarrow> f a)"

text \<open>
  The errors of \<open>struct\<close> (\<open>struct.error\<close>): a buffer of the wrong size for
  \<open>unpack\<close>, the wrong number of items for \<open>pack\<close>, a value out of the range of
  its format code.
\<close>

datatype struct_error =
    UnpackBufferSize nat
  | PackItemCount nat nat
  | PackOutOfRange

text \<open>The \<open>wave.Error\<close> messages of \<open>Wave_write\<close> and \<open>Wave_read\<close>.\<close>

datatype wave_error =
    ParamsAfterWrite
  | BadNChannels
  | BadSampWidth
  | BadFrameRate
  | NChannelsUnset
  | SampWidthUnset
  | FrameRateUnset
  | NotRiff
  | NotWave
  | UnknownFormat int
  | BadSampleWidthRead
  | BadChannelsRead
  | DataBeforeFmt
  | FmtOrDataMissing

text \<open>
  The exceptions of the pipeline. \<open>value_error\<close> lists the three \<open>ValueError\<close>s
  that \<open>pcm_to_wav\<close> raises (each wrapping the exception it caught);
  \<open>error_body\<close> lists the error payloads of the HTTP responses (the \<open>error\<close>
  or \<open>detail\<close> field, with \<open>str(e)\<close> kept as the exception \<open>e\<close>).
  \<open>UnknownValueError\<close> and \<open>RequestError\<close> are the exceptions of
  \<open>speech_recognition\<close>; \<open>LibraryError\<close> stands for any other exception an
  external library raises.
\<close>

datatype py_exc =
    StructError struct_error
  | WaveError wave_error
  | EOFError
  | RuntimeError
  | ZeroDivisionError
  | ValueError value_error
  | UnknownValueError
  | RequestError string
  | LibraryError string
  | HTTPException nat error_body
and value_error =
    PcmDataMissing
  | PcmConversionFailed py_exc
  | WavConversionFailed py_exc
and error_body =
    NoAudioData
  | ConversionError value_error
  | AudioTooShort real
  | SpeechNotRecognized
  | SttServerError string
  | InternalError py_exc

subsection \<open>Lemmas on little-endian integers\<close>

lemma length_le_bytes [simp]: "length (le_bytes n v) = n"
  by (induction n arbitrary: v) auto

lemma le_value_nonneg [simp]: "0 \<le> le_value bs"
  by (induction bs) auto

lemma le_value_bound: "le_value bs < 256 ^ length bs"
proof (induction bs)
  case Nil
  then show ?case by simp
next
  case (Cons b bs)
  have "uint b < 256"
    using uint_lt2p [of b] by simp
  have "le_value bs \<le> 256 ^ length bs - 1"
    using Cons.IH by linarith
  then have "256 * le_value bs \<le> 256 * (256 ^ length bs - 1)"
    by (rule mult_left_mono) simp
  with \<open>uint b < 256\<close> show ?case by simp
qed

lemma uint_word_of_int_byte: "uint (word_of_int v :: byte) = v mod 256"
  by (simp add: uint_word_of_int_eq take_bit_eq_mod)

text \<open>Writing then reading recovers the value modulo the width.\<close>

lemma le_value_le_bytes [simp]: "le_value (le_bytes n v) = v mod 256 ^ n"
proof (induction n arbitrary: v)
  case 0
  then show ?case by simp
next
  case (Suc n)
  then show ?case
    by (simp add: uint_word_of_int_byte zmod_zmult2_eq mult.commute)
qed

text \<open>Reading then writing back at the same width is the identity.\<close>

lemma le_bytes_le_value [simp]: "le_bytes (length bs) (le_value bs) = bs"
proof (induction bs)
  case Nil
  then show ?case by simp
next
  case (Cons b bs)
  have "0 \<le> uint b" "uint b < 256"
    using uint_lt2p [of b] by simp_all
  then have div: "(uint b + 256 * le_value bs) div 256 = le_value bs"
    by simp
  have "(word_of_int (uint b + 256 * le_value bs) :: byte) = word_of_int (uint b)"
    by (simp only: word_of_int_eq_iff) (simp add: take_bit_eq_mod)
  then have "(word_of_int (uint b + 256 * le_value bs) :: byte) = b"
    by simp
  with div Cons.IH show ?case by simp
qed

lemma le_bytes_mod: "le_bytes n (v mod 256 ^ n) = le_bytes n v"
  using le_bytes_le_value [of "le_bytes n v"] by simp

lemma le_bytes_eqI: "v mod 256 ^ n = w mod 256 ^ n \<Longrightarrow> le_bytes n v = le_bytes n w"
  by (metis le_bytes_mod)

lemma le_value_small:
  assumes "0 \<le> v" "v < 256 ^ n"
  shows "le_value (le_bytes n v) = v"
  using assms by simp

lemma le_value_append:
  "le_value (xs @ ys) = le_value xs + 256 ^ length xs * le_value ys"
  by (induction xs) (auto simp: algebra_simps)

lemma le_bytes_numeral [model_eval]:
  "le_bytes (numeral k) v = word_of_int v # le_bytes (pred_numeral k) (v div 256)"
  by (simp add: numeral_eq_Suc)

subsection \<open>Lemmas on literals and on exception propagation\<close>

lemma length_ascii [simp]: "length (ascii s) = length s"
  by (simp add: ascii_def)

lemma ascii_Cons [model_eval]: "ascii (c # s) = of_nat (of_char c) # ascii s"
  by (simp add: ascii_def)

lemma ascii_Nil [model_eval]: "ascii [] = []"
  by (simp add: ascii_def)

lemma sbind_Inl [simp]: "sbind (Inl e) f = Inl e"
  and sbind_Inr [simp]: "sbind (Inr a) f = f a"
  by (simp_all add: sbind_def)

lemma sbind_eq_Inr:
  "sbind m f = Inr b \<longleftrightarrow> (\<exists>a. m = Inr a \<and> f a = Inr b)"
  by (cases m) auto

lemma sbind_eq_Inl:
  "sbind m f = Inl e \<longleftrightarrow> m = Inl e \<or> (\<exists>a. m = Inr a \<and> f a = Inl e)"
  by (cases m) auto

end
