(* ===== verification/BytesIO.thy ===== *)
theory BytesIO
  imports Prelude
begin

text \<open>
  The in-memory stream \<open>io.BytesIO\<close> that \<open>pcm_to_wav\<close> builds the WAV container
  in, and that \<open>debug_wav_info\<close> and \<open>speech_recognition\<close> read back. Its state is
  the buffer and the current position; \<open>write\<close> overwrites from the position
  (padding with zero bytes when the position is past the end) and extends the
  buffer; an empty write changes nothing, as CPython's returns before padding; \<open>seek\<close> moves the position, a reader sees the bytes from the position on.
\<close>

record bytesio =
  bio_buf :: "byte list"
  bio_pos :: nat

definition bio_new :: bytesio where
  "bio_new = \<lparr>bio_buf = [], bio_pos = 0\<rparr>"

definition bio_write :: "bytesio \<Rightarrow> byte list \<Rightarrow> bytesio" where
  "bio_write f d =
     (if d = [] then f
      else
        (let p = bio_pos f; b = bio_buf f
         in f\<lparr>bio_buf := take p b @ replicate (p - length b) 0 @ d @ drop (p + length d) b,
              bio_pos := p + length d\<rparr>))"

definition bio_seek :: "bytesio \<Rightarrow> nat \<Rightarrow> bytesio" where
  "bio_seek f p = f\<lparr>bio_pos := p\<rparr>"

definition bio_rest :: "bytesio \<Rightarrow> byte list" where
  "bio_rest f = drop (bio_pos f) (bio_buf f)"

text \<open>\<open>wav_file.getbuffer().nbytes\<close>.\<close>

definition bio_nbytes :: "bytesio \<Rightarrow> nat" where
  "bio_nbytes f = length (bio_buf f)"

definition bio_at_end :: "bytesio \<Rightarrow> bool" where
  "bio_at_end f \<longleftrightarrow> bio_pos f = length (bio_buf f)"

lemma bio_new_at_end [simp]: "bio_at_end bio_new"
  by (simp add: bio_new_def bio_at_end_def)

lemma bio_new_buf [simp]: "bio_buf bio_new = []"
  by (simp add: bio_new_def)

text \<open>A write at the end of the stream appends and leaves the stream at its end.\<close>

lemma bio_write_at_end:
  assumes "bio_at_end f"
  shows "bio_buf (bio_write f d) = bio_buf f @ d" "bio_at_end (bio_write f d)"
  using assms by (simp_all add: bio_write_def bio_at_end_def Let_def)

lemma bio_write_Nil [simp]: "bio_write f [] = f"
  by (simp add: bio_write_def)

lemma bio_write_pos [simp]: "bio_pos (bio_write f d) = bio_pos f + length d"
  by (simp add: bio_write_def Let_def)

lemma bio_seek_buf [simp]: "bio_buf (bio_seek f p) = bio_buf f"
  and bio_seek_pos [simp]: "bio_pos (bio_seek f p) = p"
  by (simp_all add: bio_seek_def)

lemma bio_rest_seek0 [simp]: "bio_rest (bio_seek f 0) = bio_buf f"
  by (simp add: bio_rest_def)

text \<open>
  C21. What is written can be read back: after \<open>write(d)\<close> at any position, even past
  the end of the buffer (the gap is filled with zero bytes), seeking back to that
  position and reading gives \<open>d\<close> first.
\<close>

lemma bio_write_read_back:
  "take (length d) (bio_rest (bio_seek (bio_write f d) (bio_pos f))) = d"
  by (simp add: bio_write_def bio_seek_def bio_rest_def Let_def)

lemma bio_write_read_back_witness:
  "take (length [7::byte, 8]) (bio_rest (bio_seek (bio_write \<lparr>bio_buf = [1], bio_pos = 3\<rparr> [7, 8]) 3)) = [7, 8]"
  using bio_write_read_back [of "[7::byte, 8]" "\<lparr>bio_buf = [1], bio_pos = 3\<rparr>"] by simp

end
