(* ===== verification/PyStruct.thy ===== *)
theory PyStruct
  imports Prelude
begin

text \<open>
  The part of Python's \<open>struct\<close> module the program relies on: the format
  \<open>'<' + 'h' * n\<close> used by \<open>pcm_to_wav\<close> (little-endian signed 16-bit samples), and
  the unsigned codes \<open>H\<close>, \<open>L\<close> and the byte-string code \<open>4s\<close> that
  \<open>wave.Wave_write\<close> packs its header with. \<open>unpack\<close> refuses a buffer whose
  size is not exactly the size of the format; \<open>pack\<close> refuses a wrong item count
  and an item out of the range of its code. This is the PCM decoder of the spec
  (section 4.1).
\<close>

subsection \<open>One sample: the code \<open>h\<close>\<close>

text \<open>Two bytes, low byte first, read as a two's-complement 16-bit number.\<close>

definition unpack_h :: "byte \<Rightarrow> byte \<Rightarrow> int" where
  "unpack_h lo hi = sint (word_cat hi lo :: 16 word)"

definition pack_h :: "int \<Rightarrow> struct_error + byte list" where
  "pack_h v = (if v < -32768 \<or> 32767 < v then Inl PackOutOfRange else Inr (le_bytes 2 v))"

subsection \<open>A sequence of samples: the format \<open>'<' + 'h' * n\<close>\<close>

fun unpack_h_all :: "byte list \<Rightarrow> int list" where
  "unpack_h_all (lo # hi # rest) = unpack_h lo hi # unpack_h_all rest"
| "unpack_h_all _ = []"

definition struct_unpack_h :: "nat \<Rightarrow> byte list \<Rightarrow> struct_error + int list" where
  "struct_unpack_h n data =
     (if length data \<noteq> 2 * n then Inl (UnpackBufferSize (2 * n)) else Inr (unpack_h_all data))"

fun pack_h_all :: "int list \<Rightarrow> struct_error + byte list" where
  "pack_h_all [] = Inr []"
| "pack_h_all (v # vs) = sbind (pack_h v) (\<lambda>b. sbind (pack_h_all vs) (\<lambda>bs. Inr (b @ bs)))"

definition struct_pack_h :: "nat \<Rightarrow> int list \<Rightarrow> struct_error + byte list" where
  "struct_pack_h n vs =
     (if length vs \<noteq> n then Inl (PackItemCount n (length vs)) else pack_h_all vs)"

subsection \<open>Header fields: the codes \<open>H\<close>, \<open>L\<close> and \<open>4s\<close>\<close>

datatype struct_item = U16 int | U32 int | Str4 "byte list"

fun pack_item :: "struct_item \<Rightarrow> struct_error + byte list" where
  "pack_item (U16 v) = (if v < 0 \<or> 65535 < v then Inl PackOutOfRange else Inr (le_bytes 2 v))"
| "pack_item (U32 v) = (if v < 0 \<or> 4294967295 < v then Inl PackOutOfRange else Inr (le_bytes 4 v))"
| "pack_item (Str4 s) = Inr (take 4 (s @ replicate 4 0))"

fun struct_pack :: "struct_item list \<Rightarrow> struct_error + byte list" where
  "struct_pack [] = Inr []"
| "struct_pack (i # is) = sbind (pack_item i) (\<lambda>b. sbind (struct_pack is) (\<lambda>bs. Inr (b @ bs)))"

subsection \<open>Lemmas\<close>

lemma signed16_shift:
  fixes u :: int
  assumes "0 \<le> u" "u < 65536"
  shows "(u + 32768) mod 65536 - 32768 = (if u < 32768 then u else u - 65536)"
proof (cases "u < 32768")
  case True
  then show ?thesis using assms by (simp add: mod_pos_pos_trivial)
next
  case False
  have "(u + 32768) mod 65536 = (u - 32768 + 65536) mod 65536"
    by (simp add: add.commute)
  also have "\<dots> = (u - 32768) mod 65536"
    by (rule mod_add_self2)
  also have "\<dots> = u - 32768"
    using False assms by (simp add: mod_pos_pos_trivial)
  finally show ?thesis using False by simp
qed

lemma uint_word_cat16: "uint (word_cat hi lo :: 16 word) = le_value [lo, hi]"
proof -
  have "le_value [lo, hi] < 256 ^ 2"
    using le_value_bound [of "[lo, hi]"] by simp
  moreover have "uint lo < 256" "0 \<le> uint lo"
    using uint_lt2p [of lo] by simp_all
  ultimately show ?thesis
    by (simp only: word_cat_eq' concat_bit_eq uint_word_of_int_eq)
      (simp add: take_bit_eq_mod push_bit_eq_mult mod_pos_pos_trivial)
qed

lemma le_value_pair_bound: "le_value [lo, hi] < 65536"
  using le_value_bound [of "[lo, hi]"] by simp

text \<open>
  The two's-complement reading is the sign extension that CPython's \<open>struct\<close>
  performs on the unsigned little-endian value.
\<close>

lemma unpack_h_sign_extend:
  "unpack_h lo hi = (let u = le_value [lo, hi] in if u < 32768 then u else u - 65536)"
proof -
  have "unpack_h lo hi = (le_value [lo, hi] + 32768) mod 65536 - 32768"
    unfolding unpack_h_def
    by (simp only: sint_uint uint_word_cat16 signed_take_bit_eq_take_bit_shift take_bit_eq_mod) simp
  then show ?thesis
    using signed16_shift [OF le_value_nonneg le_value_pair_bound] by (simp only: Let_def)
qed

lemma unpack_h_range: "-32768 \<le> unpack_h lo hi \<and> unpack_h lo hi \<le> 32767"
proof -
  define u where "u = le_value [lo, hi]"
  have "0 \<le> u" "u < 65536"
    unfolding u_def by (rule le_value_nonneg, rule le_value_pair_bound)
  then show ?thesis
    unfolding unpack_h_sign_extend Let_def u_def [symmetric] by auto
qed

lemma le_bytes2_unpack_h: "le_bytes 2 (unpack_h lo hi) = [lo, hi]"
proof -
  define u where "u = le_value [lo, hi]"
  have "unpack_h lo hi = (if u < 32768 then u else u - 65536)"
    unfolding unpack_h_sign_extend Let_def u_def ..
  then have "unpack_h lo hi mod 256 ^ 2 = u mod 256 ^ 2"
    by (simp add: minus_mod_self2)
  then have "le_bytes 2 (unpack_h lo hi) = le_bytes 2 u"
    by (rule le_bytes_eqI)
  moreover have "length [lo, hi] = 2"
    by simp
  then have "le_bytes 2 u = [lo, hi]"
    using le_bytes_le_value [of "[lo, hi]"] unfolding u_def by (simp only:)
  ultimately show ?thesis by (simp only:)
qed

lemma pack_h_unpack_h [simp]: "pack_h (unpack_h lo hi) = Inr [lo, hi]"
  using unpack_h_range [of lo hi] by (simp add: pack_h_def le_bytes2_unpack_h)

text \<open>
  C17. Reading back the two little-endian bytes of an in-range sample gives the sample:
  the code \<open>h\<close> round-trips in the direction pack, then unpack.
\<close>

lemma unpack_h_le_bytes:
  assumes "-32768 \<le> v" "v \<le> 32767"
  shows "unpack_h (word_of_int v) (word_of_int (v div 256)) = v"
proof -
  have eq: "le_value [word_of_int v, word_of_int (v div 256)] = v mod 65536"
    using le_value_le_bytes [of 2 v] by (simp add: numeral_eq_Suc)
  show ?thesis
  proof (cases "v < 0")
    case True
    have "(v + 65536) mod 65536 = v + 65536"
      by (rule mod_pos_pos_trivial) (use True assms in linarith)+
    then have "v mod 65536 = v + 65536"
      by (metis mod_add_self2)
    then show ?thesis using True assms unfolding unpack_h_sign_extend eq Let_def by simp
  next
    case False
    then show ?thesis using assms unfolding unpack_h_sign_extend eq Let_def
      by (simp add: mod_pos_pos_trivial)
  qed
qed

lemma unpack_h_le_bytes_witness:
  "unpack_h (word_of_int (-2)) (word_of_int (-2 div 256)) = -2"
  using unpack_h_le_bytes [of "-2"] by simp

lemma pack_h_all_unpack_h_all:
  "even (length data) \<Longrightarrow> pack_h_all (unpack_h_all data) = Inr data"
  by (induction data rule: unpack_h_all.induct) auto

lemma length_unpack_h_all: "length (unpack_h_all data) = length data div 2"
  by (induction data rule: unpack_h_all.induct) auto

lemma unpack_h_all_range: "v \<in> set (unpack_h_all data) \<Longrightarrow> -32768 \<le> v \<and> v \<le> 32767"
  by (induction data rule: unpack_h_all.induct) (auto simp: unpack_h_range)

text \<open>
  C15. The conversion of \<open>pcm_to_wav\<close> line 26 round-trips: whatever
  \<open>struct.unpack('<' + 'h' * n, data)\<close> returns lies in the range of the code
  \<open>h\<close>, and \<open>struct.pack\<close> with the same format gives back exactly \<open>data\<close>.
\<close>

lemma struct_unpack_pack_h:
  assumes "struct_unpack_h n data = Inr vs"
  shows "(\<forall>v\<in>set vs. -32768 \<le> v \<and> v \<le> 32767) \<and> struct_pack_h n vs = Inr data"
proof -
  have len: "length data = 2 * n" and vs: "vs = unpack_h_all data"
    using assms by (simp_all add: struct_unpack_h_def split: if_splits)
  have "struct_pack_h n vs = Inr data"
    using len by (simp add: vs struct_pack_h_def length_unpack_h_all pack_h_all_unpack_h_all)
  then show ?thesis using unpack_h_all_range vs by blast
qed

lemma struct_unpack_pack_h_witness:
  "(-32768 \<le> unpack_h 0x34 0x12 \<and> unpack_h 0x34 0x12 \<le> 32767) \<and>
   struct_pack_h 1 [unpack_h 0x34 0x12] = Inr [0x34, 0x12]"
  using struct_unpack_pack_h [of 1 "[0x34, 0x12]" "[unpack_h 0x34 0x12]"]
  by (simp add: struct_unpack_h_def)

end
