(* ===== verification/WaveWrite.thy ===== *)
theory WaveWrite
  imports PyStruct BytesIO
begin

text \<open>
  The writer half of Python's \<open>wave\<close> module, \<open>wave.Wave_write\<close>, as
  \<open>pcm_to_wav\<close> drives it: \<open>wave.open(f, 'wb')\<close>, \<open>setnchannels\<close>,
  \<open>setsampwidth\<close>, \<open>setframerate\<close>, \<open>writeframes\<close> and \<open>close\<close> (which the
  \<open>with\<close> statement calls). The object is a record of its private fields; each
  method takes it and returns the updated object or the exception it raises. The
  header is written on the first \<open>writeframes\<close>: \<open>RIFF\<close>, the form length, the
  16-byte \<open>fmt \<close> chunk and the \<open>data\<close> chunk header, packed with \<open>struct\<close>
  (codes \<open>L\<close> and \<open>H\<close>, so a length beyond \<open>2^32 - 1\<close> is a \<open>struct.error\<close>).
  This is the WAV encoder of the spec (section 4.2); the module is the standard
  library's, modelled after its documented behaviour, on a little-endian host.
\<close>

record wave_writer =
  ww_file :: bytesio
  ww_nchannels :: nat
  ww_sampwidth :: nat
  ww_framerate :: nat
  ww_nframes :: nat
  ww_nframeswritten :: nat
  ww_datawritten :: nat
  ww_datalength :: nat
  ww_headerwritten :: bool
  ww_form_length_pos :: nat
  ww_data_length_pos :: nat

definition wave_open_w :: "bytesio \<Rightarrow> wave_writer" where
  "wave_open_w f =
     \<lparr>ww_file = f, ww_nchannels = 0, ww_sampwidth = 0, ww_framerate = 0, ww_nframes = 0,
      ww_nframeswritten = 0, ww_datawritten = 0, ww_datalength = 0, ww_headerwritten = False,
      ww_form_length_pos = 0, ww_data_length_pos = 0\<rparr>"

definition wave_setnchannels :: "wave_writer \<Rightarrow> int \<Rightarrow> py_exc + wave_writer" where
  "wave_setnchannels w n =
     (if ww_datawritten w \<noteq> 0 then Inl (WaveError ParamsAfterWrite)
      else if n < 1 then Inl (WaveError BadNChannels)
      else Inr (w\<lparr>ww_nchannels := nat n\<rparr>))"

definition wave_setsampwidth :: "wave_writer \<Rightarrow> int \<Rightarrow> py_exc + wave_writer" where
  "wave_setsampwidth w n =
     (if ww_datawritten w \<noteq> 0 then Inl (WaveError ParamsAfterWrite)
      else if n < 1 \<or> 4 < n then Inl (WaveError BadSampWidth)
      else Inr (w\<lparr>ww_sampwidth := nat n\<rparr>))"

definition wave_setframerate :: "wave_writer \<Rightarrow> int \<Rightarrow> py_exc + wave_writer" where
  "wave_setframerate w r =
     (if ww_datawritten w \<noteq> 0 then Inl (WaveError ParamsAfterWrite)
      else if r \<le> 0 then Inl (WaveError BadFrameRate)
      else Inr (w\<lparr>ww_framerate := nat r\<rparr>))"

text \<open>The fields of \<open>struct.pack('<L4s4sLHHLLHH4s', ...)\<close> in \<open>_write_header\<close>.\<close>

definition wave_header_items :: "nat \<Rightarrow> nat \<Rightarrow> nat \<Rightarrow> nat \<Rightarrow> struct_item list" where
  "wave_header_items nch sw rate datalength =
     [U32 (int (36 + datalength)), Str4 (ascii ''WAVE''), Str4 (ascii ''fmt ''), U32 16,
      U16 1, U16 (int nch), U32 (int rate), U32 (int (nch * rate * sw)),
      U16 (int (nch * sw)), U16 (int (sw * 8)), Str4 (ascii ''data'')]"

definition wave_write_header :: "wave_writer \<Rightarrow> nat \<Rightarrow> py_exc + wave_writer" where
  "wave_write_header w initlength =
     (let f1 = bio_write (ww_file w) (ascii ''RIFF'');
          nframes = (if ww_nframes w = 0
                     then initlength div (ww_nchannels w * ww_sampwidth w) else ww_nframes w);
          datalength = nframes * ww_nchannels w * ww_sampwidth w
      in case struct_pack (wave_header_items (ww_nchannels w) (ww_sampwidth w)
                             (ww_framerate w) datalength) of
           Inl e \<Rightarrow> Inl (StructError e)
         | Inr hdr \<Rightarrow>
             (let f2 = bio_write f1 hdr
              in case struct_pack [U32 (int datalength)] of
                   Inl e \<Rightarrow> Inl (StructError e)
                 | Inr dl \<Rightarrow>
                     Inr (w\<lparr>ww_file := bio_write f2 dl, ww_nframes := nframes,
                            ww_datalength := datalength, ww_form_length_pos := bio_pos f1,
                            ww_data_length_pos := bio_pos f2, ww_headerwritten := True\<rparr>)))"

definition wave_ensure_header_written :: "wave_writer \<Rightarrow> nat \<Rightarrow> py_exc + wave_writer" where
  "wave_ensure_header_written w datasize =
     (if ww_headerwritten w then Inr w
      else if ww_nchannels w = 0 then Inl (WaveError NChannelsUnset)
      else if ww_sampwidth w = 0 then Inl (WaveError SampWidthUnset)
      else if ww_framerate w = 0 then Inl (WaveError FrameRateUnset)
      else wave_write_header w datasize)"

definition wave_patchheader :: "wave_writer \<Rightarrow> py_exc + wave_writer" where
  "wave_patchheader w =
     (if ww_datawritten w = ww_datalength w then Inr w
      else
        (let f = ww_file w; curpos = bio_pos f
         in case struct_pack [U32 (int (36 + ww_datawritten w))] of
              Inl e \<Rightarrow> Inl (StructError e)
            | Inr b1 \<Rightarrow>
                (let f1 = bio_write (bio_seek f (ww_form_length_pos w)) b1
                 in case struct_pack [U32 (int (ww_datawritten w))] of
                      Inl e \<Rightarrow> Inl (StructError e)
                    | Inr b2 \<Rightarrow>
                        Inr (w\<lparr>ww_file := bio_seek (bio_write (bio_seek f1 (ww_data_length_pos w)) b2) curpos,
                               ww_datalength := ww_datawritten w\<rparr>))))"

definition wave_writeframesraw :: "wave_writer \<Rightarrow> byte list \<Rightarrow> py_exc + wave_writer" where
  "wave_writeframesraw w data =
     sbind (wave_ensure_header_written w (length data))
       (\<lambda>w. Inr (w\<lparr>ww_file := bio_write (ww_file w) data,
                   ww_datawritten := ww_datawritten w + length data,
                   ww_nframeswritten := ww_nframeswritten w
                      + length data div (ww_sampwidth w * ww_nchannels w)\<rparr>))"

definition wave_writeframes :: "wave_writer \<Rightarrow> byte list \<Rightarrow> py_exc + wave_writer" where
  "wave_writeframes w data =
     sbind (wave_writeframesraw w data)
       (\<lambda>w. if ww_datalength w \<noteq> ww_datawritten w then wave_patchheader w else Inr w)"

text \<open>\<open>close\<close> finishes the header and releases the stream, which stays usable.\<close>

definition wave_close :: "wave_writer \<Rightarrow> py_exc + bytesio" where
  "wave_close w =
     sbind (wave_ensure_header_written w 0)
       (\<lambda>w. sbind (if ww_datalength w \<noteq> ww_datawritten w then wave_patchheader w else Inr w)
              (\<lambda>w. Inr (ww_file w)))"

subsection \<open>The canonical header\<close>

text \<open>The 44 bytes the writer puts before the samples.\<close>

definition canonical_header :: "nat \<Rightarrow> nat \<Rightarrow> nat \<Rightarrow> nat \<Rightarrow> byte list" where
  "canonical_header nch sw rate datalength =
     ascii ''RIFF'' @ le_bytes 4 (int (36 + datalength)) @ ascii ''WAVE'' @ ascii ''fmt '' @
     le_bytes 4 16 @ le_bytes 2 1 @ le_bytes 2 (int nch) @ le_bytes 4 (int rate) @
     le_bytes 4 (int (nch * rate * sw)) @ le_bytes 2 (int (nch * sw)) @
     le_bytes 2 (int (sw * 8)) @ ascii ''data'' @ le_bytes 4 (int datalength)"

definition header_fits :: "nat \<Rightarrow> nat \<Rightarrow> nat \<Rightarrow> nat \<Rightarrow> bool" where
  "header_fits nch sw rate datalength \<longleftrightarrow>
     36 + datalength \<le> 4294967295 \<and> nch \<le> 65535 \<and> rate \<le> 4294967295 \<and>
     nch * rate * sw \<le> 4294967295 \<and> nch * sw \<le> 65535 \<and> sw * 8 \<le> 65535"

subsection \<open>Lemmas\<close>

lemma length_canonical_header [simp]: "length (canonical_header nch sw rate dl) = 44"
  by (simp add: canonical_header_def)

lemma take4_ascii: "length s = 4 \<Longrightarrow> take 4 (ascii s @ replicate 4 0) = ascii s"
  by simp

lemma struct_pack_header:
  "struct_pack (wave_header_items nch sw rate dl) =
     (if header_fits nch sw rate dl
      then Inr (drop 4 (take 40 (canonical_header nch sw rate dl)))
      else Inl PackOutOfRange)"
  by (auto simp: wave_header_items_def header_fits_def canonical_header_def simp del: of_nat_mult)

subsection \<open>One write on a fresh writer\<close>

lemma canonical_header_parts:
  "take 4 (canonical_header nch sw rate dl) = ascii ''RIFF''"
  "drop 40 (canonical_header nch sw rate dl) = le_bytes 4 (int dl)"
  by (simp_all add: canonical_header_def)

lemma canonical_header_recompose:
  "ascii ''RIFF'' @ drop 4 (take 40 (canonical_header nch sw rate dl)) @ le_bytes 4 (int dl) =
     canonical_header nch sw rate dl"
  by (simp add: canonical_header_def)

lemma wave_write_header_fresh:
  assumes "bio_at_end (ww_file w)" "ww_nframes w = 0"
    and "header_fits (ww_nchannels w) (ww_sampwidth w) (ww_framerate w) n"
    and "ww_nchannels w * ww_sampwidth w dvd n"
  shows "wave_write_header w n =
           Inr (w\<lparr>ww_file := bio_write (bio_write (bio_write (ww_file w) (ascii ''RIFF''))
                     (drop 4 (take 40 (canonical_header (ww_nchannels w) (ww_sampwidth w) (ww_framerate w) n))))
                     (le_bytes 4 (int n)),
                  ww_nframes := n div (ww_nchannels w * ww_sampwidth w), ww_datalength := n,
                  ww_form_length_pos := bio_pos (ww_file w) + 4,
                  ww_data_length_pos := bio_pos (ww_file w) + 40, ww_headerwritten := True\<rparr>)"
proof -
  have dl: "n div (ww_nchannels w * ww_sampwidth w) * ww_nchannels w * ww_sampwidth w = n"
    using assms(4) by (metis dvd_div_mult_self mult.assoc)
  have "struct_pack [U32 (int n)] = Inr (le_bytes 4 (int n))"
    using assms(3) by (simp add: header_fits_def)
  then show ?thesis
    using assms(1,2,3)
    by (simp add: wave_write_header_def struct_pack_header Let_def dl del: struct_pack.simps)
qed

lemma wave_writeframes_fresh:
  assumes "bio_at_end (ww_file w)" "ww_nframes w = 0" "\<not> ww_headerwritten w" "ww_datawritten w = 0"
    and "ww_nchannels w \<noteq> 0" "ww_sampwidth w \<noteq> 0" "ww_framerate w \<noteq> 0"
    and "header_fits (ww_nchannels w) (ww_sampwidth w) (ww_framerate w) (length data)"
    and "ww_nchannels w * ww_sampwidth w dvd length data"
  shows "\<exists>w'. wave_writeframes w data = Inr w' \<and>
           bio_buf (ww_file w') = bio_buf (ww_file w) @
             canonical_header (ww_nchannels w) (ww_sampwidth w) (ww_framerate w) (length data) @ data \<and>
           bio_at_end (ww_file w') \<and> ww_headerwritten w' \<and>
           ww_datalength w' = length data \<and> ww_datawritten w' = length data"
proof -
  have hdr: "wave_ensure_header_written w (length data) = wave_write_header w (length data)"
    using assms(3,5,6,7) by (simp add: wave_ensure_header_written_def)
  show ?thesis
    using assms(1,4) wave_write_header_fresh [OF assms(1,2,8,9)] canonical_header_recompose
    by (simp add: wave_writeframes_def wave_writeframesraw_def hdr bio_write_at_end)
qed

lemma wave_writeframes_overflow:
  assumes "ww_nframes w = 0" "\<not> ww_headerwritten w"
    and "ww_nchannels w \<noteq> 0" "ww_sampwidth w \<noteq> 0" "ww_framerate w \<noteq> 0"
    and "\<not> header_fits (ww_nchannels w) (ww_sampwidth w) (ww_framerate w) (length data)"
    and "ww_nchannels w * ww_sampwidth w dvd length data"
  shows "wave_writeframes w data = Inl (StructError PackOutOfRange)"
proof -
  have dl: "length data div (ww_nchannels w * ww_sampwidth w) * ww_nchannels w * ww_sampwidth w = length data"
    using assms(7) by (metis dvd_div_mult_self mult.assoc)
  show ?thesis
    using assms(1-6)
    by (simp add: wave_writeframes_def wave_writeframesraw_def wave_ensure_header_written_def
        wave_write_header_def Let_def dl struct_pack_header del: struct_pack.simps)
qed

lemma wave_close_written:
  assumes "ww_headerwritten w" "ww_datalength w = ww_datawritten w"
  shows "wave_close w = Inr (ww_file w)"
  using assms by (simp add: wave_close_def wave_ensure_header_written_def)

lemma wave_close_unwritten:
  assumes "\<not> ww_headerwritten w" "ww_nframes w = 0" "ww_datawritten w = 0" "bio_at_end (ww_file w)"
    and "ww_nchannels w \<noteq> 0" "ww_sampwidth w \<noteq> 0" "ww_framerate w \<noteq> 0"
    and "header_fits (ww_nchannels w) (ww_sampwidth w) (ww_framerate w) 0"
  shows "\<exists>f. wave_close w = Inr f"
  using assms wave_write_header_fresh [of w 0]
  by (simp add: wave_close_def wave_ensure_header_written_def)
end
