(* ===== verification/WaveRead.thy ===== *)
theory WaveRead
  imports BytesIO WaveWrite
begin

text \<open>
  The reader half of Python's \<open>wave\<close> module, \<open>wave.open(f, 'rb')\<close>, which
  \<open>debug_wav_info\<close> uses to recover the header fields, and which
  \<open>speech_recognition.AudioFile\<close> uses again before the upload. The reader reads
  the \<open>RIFF\<close> chunk header and the \<open>WAVE\<close> tag, then walks the sub-chunks in
  order: a \<open>fmt \<close> chunk gives channels, sample width and rate, a \<open>data\<close> chunk
  gives the frame count (its declared size divided by the frame size) and ends the
  walk; any other chunk is skipped, with its pad byte when its size is odd. All
  reads of sub-chunks are bounded by the size the \<open>RIFF\<close> header declares; a skip
  past that size is a \<open>RuntimeError\<close>, a header cut short ends the walk, which
  then fails because \<open>fmt \<close> or \<open>data\<close> is missing. This is the parser half of
  the Audio Validator (spec section 4.3), for plain PCM (format tag 1).
\<close>

record wave_fmt =
  wf_nchannels :: nat
  wf_sampwidth :: nat
  wf_framerate :: nat

record wave_params =
  wp_nchannels :: nat
  wp_sampwidth :: nat
  wp_framerate :: nat
  wp_nframes :: nat

text \<open>\<open>Wave_read._read_fmt_chunk\<close>: \<open>'<HHLLH'\<close> from 14 bytes, then \<open>'<H'\<close>.\<close>

definition read_fmt_chunk :: "byte list \<Rightarrow> py_exc + wave_fmt" where
  "read_fmt_chunk body =
     (if length body < 14 then Inl EOFError
      else
        (let tag = le_value (take 2 body);
             nch = le_value (take 2 (drop 2 body));
             rate = le_value (take 4 (drop 4 body))
         in if tag \<noteq> 1 then Inl (WaveError (UnknownFormat tag))
            else if length body < 16 then Inl EOFError
            else
              (let sw = (le_value (take 2 (drop 14 body)) + 7) div 8
               in if sw = 0 then Inl (WaveError BadSampleWidthRead)
                  else if nch = 0 then Inl (WaveError BadChannelsRead)
                  else Inr \<lparr>wf_nchannels = nat nch, wf_sampwidth = nat sw,
                            wf_framerate = nat rate\<rparr>)))"

definition params_of :: "wave_fmt \<Rightarrow> nat \<Rightarrow> wave_params" where
  "params_of f chunksize =
     \<lparr>wp_nchannels = wf_nchannels f, wp_sampwidth = wf_sampwidth f,
      wp_framerate = wf_framerate f,
      wp_nframes = chunksize div (wf_nchannels f * wf_sampwidth f)\<rparr>"

text \<open>
  The loop of \<open>Wave_read.initfp\<close>. \<open>rest\<close> are the bytes from the current
  position, \<open>rem\<close> what is left of the declared \<open>RIFF\<close> size, \<open>off\<close> the number
  of bytes consumed so far; the result is the header fields and the offset of the
  first sample.
\<close>

function scan_chunks ::
  "byte list \<Rightarrow> nat \<Rightarrow> nat \<Rightarrow> wave_fmt option \<Rightarrow> py_exc + (wave_params \<times> nat)" where
  "scan_chunks rest rem off fmt =
     (if min rem (length rest) < 8 then Inl (WaveError FmtOrDataMissing)
      else
        (let name = take 4 rest;
             chunksize = nat (le_value (take 4 (drop 4 rest)));
             body = take (min chunksize (rem - 8)) (drop 8 rest);
             step = 8 + chunksize + chunksize mod 2
         in if name = ascii ''fmt '' then
              (case read_fmt_chunk body of
                 Inl e \<Rightarrow> Inl e
               | Inr f \<Rightarrow>
                   if rem < step then Inl RuntimeError
                   else scan_chunks (drop step rest) (rem - step) (off + step) (Some f))
            else if name = ascii ''data'' then
              (case fmt of
                 None \<Rightarrow> Inl (WaveError DataBeforeFmt)
               | Some f \<Rightarrow> Inr (params_of f chunksize, off + 8))
            else if rem < step then Inl RuntimeError
            else scan_chunks (drop step rest) (rem - step) (off + step) fmt))"
  by pat_completeness auto
termination
  by (relation "measure (\<lambda>(rest, rem, off, fmt). length rest)") auto

declare scan_chunks.simps [simp del]

text \<open>
  The same loop with a bound on its rounds: \<open>None\<close> when the rounds run out. It is
  the reference for the number of rounds the loop makes.
\<close>

fun scan_chunks_fuel ::
  "nat \<Rightarrow> byte list \<Rightarrow> nat \<Rightarrow> nat \<Rightarrow> wave_fmt option \<Rightarrow> (py_exc + (wave_params \<times> nat)) option" where
  "scan_chunks_fuel 0 rest rem off fmt = None"
| "scan_chunks_fuel (Suc k) rest rem off fmt =
     (if min rem (length rest) < 8 then Some (Inl (WaveError FmtOrDataMissing))
      else
        (let name = take 4 rest;
             chunksize = nat (le_value (take 4 (drop 4 rest)));
             body = take (min chunksize (rem - 8)) (drop 8 rest);
             step = 8 + chunksize + chunksize mod 2
         in if name = ascii ''fmt '' then
              (case read_fmt_chunk body of
                 Inl e \<Rightarrow> Some (Inl e)
               | Inr f \<Rightarrow>
                   if rem < step then Some (Inl RuntimeError)
                   else scan_chunks_fuel k (drop step rest) (rem - step) (off + step) (Some f))
            else if name = ascii ''data'' then
              (case fmt of
                 None \<Rightarrow> Some (Inl (WaveError DataBeforeFmt))
               | Some f \<Rightarrow> Some (Inr (params_of f chunksize, off + 8)))
            else if rem < step then Some (Inl RuntimeError)
            else scan_chunks_fuel k (drop step rest) (rem - step) (off + step) fmt))"

definition wave_read :: "byte list \<Rightarrow> py_exc + (wave_params \<times> nat)" where
  "wave_read bs =
     (if length bs < 8 then Inl EOFError
      else if take 4 bs \<noteq> ascii ''RIFF'' then Inl (WaveError NotRiff)
      else
        (let riffsize = nat (le_value (take 4 (drop 4 bs)))
         in if take (min 4 riffsize) (drop 8 bs) \<noteq> ascii ''WAVE'' then Inl (WaveError NotWave)
            else scan_chunks (drop 12 bs) (riffsize - 4) 12 None))"

text \<open>\<open>wave.open(f, 'rb')\<close> on a stream: the header is read from the current position.\<close>

definition wave_open_r :: "bytesio \<Rightarrow> py_exc + (wave_params \<times> bytesio)" where
  "wave_open_r f =
     (case wave_read (bio_rest f) of
        Inl e \<Rightarrow> Inl e
      | Inr (p, off) \<Rightarrow> Inr (p, bio_seek f (bio_pos f + off)))"

text \<open>The 16-byte body of the \<open>fmt \<close> chunk that \<open>Wave_write\<close> writes.\<close>

definition fmt_body :: "nat \<Rightarrow> nat \<Rightarrow> nat \<Rightarrow> byte list" where
  "fmt_body nch sw rate = le_bytes 2 1 @ le_bytes 2 (int nch) @ le_bytes 4 (int rate) @
     le_bytes 4 (int (nch * rate * sw)) @ le_bytes 2 (int (nch * sw)) @ le_bytes 2 (int (sw * 8))"

subsection \<open>The loop, branch by branch\<close>

lemma scan_chunks_short:
  "min rem (length rest) < 8 \<Longrightarrow> scan_chunks rest rem off fmt = Inl (WaveError FmtOrDataMissing)"
  by (simp add: scan_chunks.simps)

lemma scan_chunks_fmt:
  assumes "8 \<le> rem" "8 \<le> length rest" "take 4 rest = ascii ''fmt ''"
    and "le_value (take 4 (drop 4 rest)) = int chunksize"
    and "read_fmt_chunk (take (min chunksize (rem - 8)) (drop 8 rest)) = Inr f"
    and "8 + chunksize + chunksize mod 2 \<le> rem"
  shows "scan_chunks rest rem off fmt =
           scan_chunks (drop (8 + chunksize + chunksize mod 2) rest)
             (rem - (8 + chunksize + chunksize mod 2))
             (off + (8 + chunksize + chunksize mod 2)) (Some f)"
  apply (subst scan_chunks.simps)
  apply (simp only: Let_def assms(3) assms(4) nat_int)
  using assms(1,2,5,6) by (simp add: min_def)

lemma ascii_fmt_ne_data: "ascii ''fmt '' \<noteq> ascii ''data''"
  by (simp add: ascii_def)

lemma scan_chunks_data:
  assumes "8 \<le> rem" "8 \<le> length rest" "take 4 rest = ascii ''data''"
    and "le_value (take 4 (drop 4 rest)) = int chunksize"
  shows "scan_chunks rest rem off (Some f) = Inr (params_of f chunksize, off + 8)"
  apply (subst scan_chunks.simps)
  apply (simp only: Let_def assms(3) assms(4) nat_int)
  using assms(1,2) ascii_fmt_ne_data by (simp add: min_def)

text \<open>
  C19. A \<open>data\<close> chunk before any \<open>fmt \<close> chunk is refused.
\<close>

lemma scan_chunks_data_first:
  assumes "8 \<le> rem" "8 \<le> length rest" "take 4 rest = ascii ''data''"
  shows "scan_chunks rest rem off None = Inl (WaveError DataBeforeFmt)"
  apply (subst scan_chunks.simps)
  apply (simp only: Let_def assms(3))
  using assms(1,2) ascii_fmt_ne_data by (simp add: min_def)

lemma scan_chunks_data_first_witness:
  "scan_chunks (ascii ''data'' @ replicate 4 0) 8 12 None = Inl (WaveError DataBeforeFmt)"
  using scan_chunks_data_first [of 8 "ascii ''data'' @ replicate 4 0" 12] by simp

text \<open>
  A successful walk either stops at the \<open>data\<close> chunk in front of it, or steps past
  a whole chunk (at least its 8-byte header) and succeeds on the rest.
\<close>

lemma scan_chunks_Inr_cases:
  assumes "scan_chunks rest rem off fmt = Inr r"
  shows "8 \<le> length rest \<and>
         ((\<exists>f sz. r = (params_of f sz, off + 8)) \<or>
          (\<exists>step fmt'. 8 \<le> step \<and>
             scan_chunks (drop step rest) (rem - step) (off + step) fmt' = Inr r))"
proof -
  have "\<not> min rem (length rest) < 8"
    using assms by (auto simp: scan_chunks_short)
  then show ?thesis
    using assms [unfolded scan_chunks.simps [of rest rem off fmt]]
    by (auto simp: Let_def split: if_splits sum.splits option.splits)
qed

text \<open>
  C18. The offset of the first sample the chunk walk returns lies after a chunk header
  and within the bytes the reader was given. The witness walks past a 10-byte
  \<open>LIST\<close> chunk to a data chunk whose samples start at offset 54.
\<close>

lemma scan_chunks_offset:
  "scan_chunks rest rem off fmt = Inr (p, q) \<Longrightarrow> off + 8 \<le> q \<and> q \<le> off + length rest"
proof (induction "length rest" arbitrary: rest rem off fmt rule: less_induct)
  case less
  from scan_chunks_Inr_cases [OF less.prems]
  show ?case
  proof (elim conjE disjE exE)
    fix f sz
    assume "(p, q) = (params_of f sz, off + 8)" "8 \<le> length rest"
    then show ?thesis by simp
  next
    fix step fmt'
    assume len: "8 \<le> length rest" and st: "8 \<le> step"
      and rec: "scan_chunks (drop step rest) (rem - step) (off + step) fmt' = Inr (p, q)"
    have "length (drop step rest) < length rest"
      using len st by simp
    from less.hyps [OF this rec]
    have "off + step + 8 \<le> q \<and> q \<le> off + step + length (drop step rest)" .
    then show ?thesis using st by auto
  qed
qed

lemma scan_chunks_offset_witness:
  "scan_chunks (ascii ''LIST'' @ le_bytes 4 2 @ [7, 7] @ ascii ''data'' @ le_bytes 4 0) 18 36
      (Some \<lparr>wf_nchannels = 1, wf_sampwidth = 2, wf_framerate = 8000\<rparr>) =
     Inr (params_of \<lparr>wf_nchannels = 1, wf_sampwidth = 2, wf_framerate = 8000\<rparr> 0, 54) \<and>
   36 + 8 \<le> (54::nat) \<and>
   (54::nat) \<le> 36 + length (ascii ''LIST'' @ le_bytes 4 2 @ [7, 7] @ ascii ''data'' @ le_bytes 4 0)"
proof -
  have h: "scan_chunks (ascii ''LIST'' @ le_bytes 4 2 @ [7, 7] @ ascii ''data'' @ le_bytes 4 0) 18 36
      (Some \<lparr>wf_nchannels = 1, wf_sampwidth = 2, wf_framerate = 8000\<rparr>) =
     Inr (params_of \<lparr>wf_nchannels = 1, wf_sampwidth = 2, wf_framerate = 8000\<rparr> 0, 54)"
    by code_simp
  show ?thesis using h scan_chunks_offset [OF h] by simp
qed

subsection \<open>Reading back what the writer wrote\<close>

lemma canonical_header_split:
  "canonical_header nch sw rate dl =
     ascii ''RIFF'' @ le_bytes 4 (int (36 + dl)) @ ascii ''WAVE'' @
     (ascii ''fmt '' @ le_bytes 4 16 @ fmt_body nch sw rate) @ ascii ''data'' @ le_bytes 4 (int dl)"
  by (simp add: canonical_header_def fmt_body_def)

lemma length_fmt_body [simp]: "length (fmt_body nch sw rate) = 16"
  by (simp add: fmt_body_def)

lemma read_fmt_body:
  assumes "header_fits nch sw rate dl" "1 \<le> nch" "1 \<le> sw"
  shows "read_fmt_chunk (fmt_body nch sw rate) =
           Inr \<lparr>wf_nchannels = nch, wf_sampwidth = sw, wf_framerate = rate\<rparr>"
proof -
  have "(int (sw * 8) + 7) div 8 = int sw" by simp
  then show ?thesis using assms
    by (simp add: read_fmt_chunk_def fmt_body_def header_fits_def Let_def)
qed

lemma wave_read_canonical:
  assumes fits: "header_fits nch sw rate dl" and nch: "1 \<le> nch" and sw: "1 \<le> sw"
  shows "wave_read (canonical_header nch sw rate dl @ d) =
           Inr (\<lparr>wp_nchannels = nch, wp_sampwidth = sw, wp_framerate = rate,
                  wp_nframes = dl div (nch * sw)\<rparr>, 44)"
proof -
  define f where "f = \<lparr>wf_nchannels = nch, wf_sampwidth = sw, wf_framerate = rate\<rparr>"
  define rest where "rest = (ascii ''fmt '' @ le_bytes 4 16 @ fmt_body nch sw rate) @
                             ascii ''data'' @ le_bytes 4 (int dl) @ d"
  have dl: "int (36 + dl) < 256 ^ 4" "int dl < 256 ^ 4"
    using fits by (simp_all add: header_fits_def)
  have bs: "canonical_header nch sw rate dl @ d =
              ascii ''RIFF'' @ le_bytes 4 (int (36 + dl)) @ ascii ''WAVE'' @ rest"
    by (simp add: canonical_header_split rest_def)
  have len: "length rest = 32 + length d"
    by (simp add: rest_def)
  have step1: "scan_chunks rest (32 + dl) 12 None = scan_chunks (drop 24 rest) (8 + dl) 36 (Some f)"
  proof -
    have "read_fmt_chunk (take (min 16 (32 + dl - 8)) (drop 8 rest)) = Inr f"
      using read_fmt_body [OF fits nch sw] by (simp add: rest_def f_def)
    then show ?thesis
      using scan_chunks_fmt [of "32 + dl" rest 16 f 12 None] len
      by (simp add: rest_def)
  qed
  have step2: "scan_chunks (drop 24 rest) (8 + dl) 36 (Some f) = Inr (params_of f dl, 44)"
    using scan_chunks_data [of "8 + dl" "drop 24 rest" dl 36 f] dl
    by (simp add: rest_def)
  have "wave_read (canonical_header nch sw rate dl @ d) = scan_chunks rest (32 + dl) 12 None"
  proof -
    have "nat (36 + int dl) = 36 + dl" by simp
    then show ?thesis
      unfolding bs wave_read_def using dl len by (simp add: Let_def)
  qed
  then show ?thesis
    using step1 step2 by (simp add: params_of_def f_def)
qed


lemma scan_chunks_fuel_enough:
  "length rest div 8 < k \<Longrightarrow> scan_chunks_fuel k rest rem off fmt = Some (scan_chunks rest rem off fmt)"
proof (induction k arbitrary: rest rem off fmt)
  case 0
  then show ?case by simp
next
  case (Suc k)
  show ?case
  proof (cases "min rem (length rest) < 8")
    case True
    then show ?thesis by (simp add: scan_chunks.simps [of rest rem off fmt])
  next
    case False
    define chunksize where "chunksize = nat (le_value (take 4 (drop 4 rest)))"
    define step where "step = 8 + chunksize + chunksize mod 2"
    have "length (drop step rest) div 8 < k"
      using Suc.prems False by (simp add: step_def min_def split: if_splits)
    note ih = Suc.IH [OF this]
    show ?thesis
      using False ih
      by (simp add: scan_chunks.simps [of rest rem off fmt] Let_def chunksize_def [symmetric]
          step_def [symmetric] split: sum.split option.split)
  qed
qed

text \<open>
  C24. The chunk loop of \<open>Wave_read.initfp\<close> stops on every input, after at most
  \<open>len // 8 + 1\<close> rounds for \<open>len\<close> bytes after the \<open>WAVE\<close> tag: with that many
  rounds the bounded loop gives the loop's result.
\<close>

theorem scan_chunks_rounds:
  "scan_chunks_fuel (length rest div 8 + 1) rest rem off fmt = Some (scan_chunks rest rem off fmt)"
  by (rule scan_chunks_fuel_enough) simp


text \<open>
  C33. The reader skips a chunk it does not know (a \<open>LIST\<close> or \<open>fact\<close> chunk of another
  writer), with the pad byte of an odd size, and goes on after it, as long as the chunk
  lies within the size the \<open>RIFF\<close> header declares.
\<close>

theorem scan_chunks_skip_unknown:
  assumes "length name = 4" "name \<noteq> ascii ''fmt ''" "name \<noteq> ascii ''data''"
    and "length body = sz + sz mod 2" "sz < 4294967296" "8 + sz + sz mod 2 \<le> rem"
  shows "scan_chunks (name @ le_bytes 4 (int sz) @ body @ rest) rem off fmt =
           scan_chunks rest (rem - (8 + sz + sz mod 2)) (off + (8 + sz + sz mod 2)) fmt"
proof -
  let ?c = "name @ le_bytes 4 (int sz) @ body @ rest"
  have t: "take 4 ?c = name" using assms(1) by simp
  have z: "le_value (take 4 (drop 4 ?c)) = int sz" using assms(1,5) by simp
  have d: "drop (8 + sz + sz mod 2) ?c = rest" using assms(1,4) by simp
  have l: "8 \<le> length ?c" using assms(1) by simp
  show ?thesis
    apply (subst scan_chunks.simps)
    apply (simp only: Let_def t z nat_int d)
    using assms(2,3,6) l by (simp add: min_def)
qed

lemma scan_chunks_skip_unknown_witness:
  "scan_chunks (ascii ''LIST'' @ le_bytes 4 (int 3) @ [7, 7, 7, 0] @ []) 12 12 None =
     scan_chunks [] (12 - (8 + 3 + 3 mod 2)) (12 + (8 + 3 + 3 mod 2)) None"
  using scan_chunks_skip_unknown [of "ascii ''LIST''" "[7, 7, 7, 0]" 3 12 "[]" 12 None]
  by (simp add: ascii_def)

end
