(* ===== verification/Convert.thy ===== *)
theory Convert
  imports WaveRead
begin

text \<open>
  The two functions of the pipeline that the repository writes itself, identical in
  \<open>src/stt-engine/gstt_fastapi_rest.py\<close> and \<open>src/stt-engine/gstt_flask.py\<close>:
  \<open>pcm_to_wav\<close> (decode the body as 16-bit samples, re-encode them, wrap them in a
  mono 16-bit WAV container in a fresh \<open>BytesIO\<close>, rewind it) and
  \<open>debug_wav_info\<close> (rewind, reopen the container with \<open>wave\<close>, compute the
  duration \<open>frames / float(framerate)\<close>). Every exception inside \<open>pcm_to_wav\<close>'s
  outer \<open>try\<close> is re-raised as a \<open>ValueError\<close> wrapping it.
\<close>

text \<open>
  Line 26: \<open>struct.pack(fmt, *struct.unpack(fmt, pcm_data))\<close> with
  \<open>fmt = '<' + 'h' * (len(pcm_data) // 2)\<close>.
\<close>

definition pcm_repack :: "byte list \<Rightarrow> struct_error + byte list" where
  "pcm_repack pcm_data =
     (let n = length pcm_data div 2
      in sbind (struct_unpack_h n pcm_data) (\<lambda>samples. struct_pack_h n samples))"

text \<open>
  Leaving the \<open>with wave.open(wav_file, 'wb') as wf:\<close> block by an exception
  \<open>e\<close> calls \<open>wf.close()\<close>; if that raises too, its exception replaces \<open>e\<close>.
\<close>

definition with_wave_exit :: "wave_writer \<Rightarrow> py_exc \<Rightarrow> py_exc + bytesio" where
  "with_wave_exit w e = (case wave_close w of Inl e' \<Rightarrow> Inl e' | Inr _ \<Rightarrow> Inl e)"

text \<open>Lines 20--30: the \<open>with\<close> block, ending in \<open>close\<close> on the normal path.\<close>

definition wave_write_block :: "bytesio \<Rightarrow> int \<Rightarrow> byte list \<Rightarrow> py_exc + bytesio" where
  "wave_write_block wav_file sample_rate pcm_data =
     (let w0 = wave_open_w wav_file
      in (case wave_setnchannels w0 1 of
            Inl e \<Rightarrow> with_wave_exit w0 e
          | Inr w1 \<Rightarrow>
       (case wave_setsampwidth w1 2 of
            Inl e \<Rightarrow> with_wave_exit w1 e
          | Inr w2 \<Rightarrow>
       (case wave_setframerate w2 sample_rate of
            Inl e \<Rightarrow> with_wave_exit w2 e
          | Inr w3 \<Rightarrow>
       (case pcm_repack pcm_data of
            Inl se \<Rightarrow> with_wave_exit w3 (ValueError (PcmConversionFailed (StructError se)))
          | Inr pcm_int16 \<Rightarrow>
       (case wave_writeframes w3 pcm_int16 of
            Inl e \<Rightarrow> with_wave_exit w3 e
          | Inr w4 \<Rightarrow> wave_close w4))))))"

text \<open>Lines 11--36: \<open>pcm_to_wav(pcm_data, sample_rate=48000)\<close>.\<close>

definition pcm_to_wav :: "byte list \<Rightarrow> int \<Rightarrow> py_exc + bytesio" where
  "pcm_to_wav pcm_data sample_rate =
     (if pcm_data = [] then Inl (ValueError PcmDataMissing)
      else
        (case wave_write_block bio_new sample_rate pcm_data of
           Inl e \<Rightarrow> Inl (ValueError (WavConversionFailed e))
         | Inr wav_file \<Rightarrow> Inr (bio_seek wav_file 0)))"

text \<open>
  Lines 38--48: \<open>debug_wav_info(wav_file)\<close>. It returns the duration; reading the
  header moves the stream, so the model returns the stream as well.
\<close>

definition debug_wav_info :: "bytesio \<Rightarrow> py_exc + real \<times> bytesio" where
  "debug_wav_info wav_file =
     (case wave_open_r (bio_seek wav_file 0) of
        Inl e \<Rightarrow> Inl e
      | Inr (p, f) \<Rightarrow>
          if wp_framerate p = 0 then Inl ZeroDivisionError
          else Inr (real (wp_nframes p) / real (wp_framerate p), f))"

text \<open>
  \<open>gstt_flask.py\<close> has its own copies of both functions, \<open>pcm_to_wav\<close> at lines 12--37
  and \<open>debug_wav_info\<close> at lines 111--121, with the same code; the Flask handler calls
  these.
\<close>

definition pcm_to_wav_flask :: "byte list \<Rightarrow> int \<Rightarrow> py_exc + bytesio" where
  "pcm_to_wav_flask pcm_data sample_rate =
     (if pcm_data = [] then Inl (ValueError PcmDataMissing)
      else
        (case wave_write_block bio_new sample_rate pcm_data of
           Inl e \<Rightarrow> Inl (ValueError (WavConversionFailed e))
         | Inr wav_file \<Rightarrow> Inr (bio_seek wav_file 0)))"

definition debug_wav_info_flask :: "bytesio \<Rightarrow> py_exc + real \<times> bytesio" where
  "debug_wav_info_flask wav_file =
     (case wave_open_r (bio_seek wav_file 0) of
        Inl e \<Rightarrow> Inl e
      | Inr (p, f) \<Rightarrow>
          if wp_framerate p = 0 then Inl ZeroDivisionError
          else Inr (real (wp_nframes p) / real (wp_framerate p), f))"

text \<open>The writer \<open>pcm_to_wav\<close> has configured when it reaches line 26.\<close>

definition configured_writer :: "int \<Rightarrow> wave_writer" where
  "configured_writer sample_rate =
     \<lparr>ww_file = bio_new, ww_nchannels = 1, ww_sampwidth = 2, ww_framerate = nat sample_rate,
      ww_nframes = 0, ww_nframeswritten = 0, ww_datawritten = 0, ww_datalength = 0,
      ww_headerwritten = False, ww_form_length_pos = 0, ww_data_length_pos = 0\<rparr>"

text \<open>The container \<open>pcm_to_wav\<close> is meant to build, rewound.\<close>

definition wav_container :: "int \<Rightarrow> byte list \<Rightarrow> bytesio" where
  "wav_container sample_rate pcm_data =
     \<lparr>bio_buf = canonical_header 1 2 (nat sample_rate) (length pcm_data) @ pcm_data, bio_pos = 0\<rparr>"

subsection \<open>The two copies\<close>

lemma flask_copies_eq [simp]:
  "pcm_to_wav_flask = pcm_to_wav" "debug_wav_info_flask = debug_wav_info"
  by (simp_all add: fun_eq_iff pcm_to_wav_flask_def pcm_to_wav_def
      debug_wav_info_flask_def debug_wav_info_def)

subsection \<open>The sample conversion of line 26\<close>

lemma pcm_repack_even:
  "even (length pcm_data) \<Longrightarrow> pcm_repack pcm_data = Inr pcm_data"
  by (simp add: pcm_repack_def struct_unpack_h_def struct_pack_h_def length_unpack_h_all
      pack_h_all_unpack_h_all)

lemma pcm_repack_odd:
  "odd (length pcm_data) \<Longrightarrow>
     pcm_repack pcm_data = Inl (UnpackBufferSize (length pcm_data - 1))"
proof -
  assume odd: "odd (length pcm_data)"
  then have "2 * (length pcm_data div 2) = length pcm_data - 1"
    by (rule odd_two_times_div_two_nat)
  moreover have "length pcm_data - 1 \<noteq> length pcm_data"
    using odd_pos [OF odd] by arith
  ultimately show ?thesis
    by (simp add: pcm_repack_def struct_unpack_h_def Let_def)
qed

subsection \<open>The writer inside the \<open>with\<close> block\<close>

lemma setup_writer:
  assumes "0 < sample_rate"
  shows "sbind (wave_setnchannels (wave_open_w f) 1)
           (\<lambda>w1. sbind (wave_setsampwidth w1 2) (\<lambda>w2. wave_setframerate w2 sample_rate)) =
         Inr ((wave_open_w f)\<lparr>ww_nchannels := 1, ww_sampwidth := 2, ww_framerate := nat sample_rate\<rparr>)"
  using assms
  by (simp add: wave_open_w_def wave_setnchannels_def wave_setsampwidth_def wave_setframerate_def)

lemma wave_write_block_unfold:
  assumes "0 < sample_rate"
  shows "wave_write_block bio_new sample_rate pcm_data =
           (case pcm_repack pcm_data of
              Inl se \<Rightarrow> with_wave_exit (configured_writer sample_rate)
                          (ValueError (PcmConversionFailed (StructError se)))
            | Inr pcm_int16 \<Rightarrow>
                (case wave_writeframes (configured_writer sample_rate) pcm_int16 of
                   Inl e \<Rightarrow> with_wave_exit (configured_writer sample_rate) e
                 | Inr w4 \<Rightarrow> wave_close w4))"
proof -
  define w1 where "w1 = (wave_open_w bio_new)\<lparr>ww_nchannels := 1\<rparr>"
  define w2 where "w2 = w1\<lparr>ww_sampwidth := 2\<rparr>"
  have s1: "wave_setnchannels (wave_open_w bio_new) 1 = Inr w1"
    by (simp add: wave_setnchannels_def wave_open_w_def w1_def)
  have s2: "wave_setsampwidth w1 2 = Inr w2"
    by (simp add: wave_setsampwidth_def wave_open_w_def w1_def w2_def)
  have s3: "wave_setframerate w2 sample_rate = Inr (configured_writer sample_rate)"
    using assms
    by (simp add: wave_setframerate_def wave_open_w_def w1_def w2_def configured_writer_def)
  show ?thesis
    by (simp only: wave_write_block_def Let_def s1 s2 s3 sum.case)
qed

lemma configured_writer_fields [simp]:
  "bio_at_end (ww_file (configured_writer r))" "ww_nframes (configured_writer r) = 0"
  "\<not> ww_headerwritten (configured_writer r)" "ww_datawritten (configured_writer r) = 0"
  "ww_nchannels (configured_writer r) = 1" "ww_sampwidth (configured_writer r) = 2"
  "ww_framerate (configured_writer r) = nat r" "bio_buf (ww_file (configured_writer r)) = []"
  by (simp_all add: configured_writer_def wave_open_w_def)

subsection \<open>\<open>pcm_to_wav\<close>, branch by branch\<close>

lemma bio_seek0_eq: "bio_buf f = b \<Longrightarrow> bio_seek f 0 = \<lparr>bio_buf = b, bio_pos = 0\<rparr>"
  by (cases f) (simp add: bio_seek_def)

lemma pcm_to_wav_ok:
  assumes "pcm_data \<noteq> []" "even (length pcm_data)" "0 < sample_rate"
    and "header_fits 1 2 (nat sample_rate) (length pcm_data)"
  shows "pcm_to_wav pcm_data sample_rate = Inr (wav_container sample_rate pcm_data)"
proof -
  let ?w = "configured_writer sample_rate"
  have dvd: "ww_nchannels ?w * ww_sampwidth ?w dvd length pcm_data"
    using assms(2) by simp
  obtain w' where w': "wave_writeframes ?w pcm_data = Inr w'"
    and buf: "bio_buf (ww_file w') = canonical_header 1 2 (nat sample_rate) (length pcm_data) @ pcm_data"
    and hw: "ww_headerwritten w'" and dl: "ww_datalength w' = ww_datawritten w'"
    using wave_writeframes_fresh [of ?w pcm_data] dvd assms(3,4) by auto
  have "wave_write_block bio_new sample_rate pcm_data = Inr (ww_file w')"
    using assms(2,3) w' wave_close_written [OF hw dl]
    by (simp add: wave_write_block_unfold pcm_repack_even)
  then show ?thesis
    using assms(1) buf by (simp add: pcm_to_wav_def wav_container_def bio_seek0_eq)
qed

lemma pcm_to_wav_empty: "pcm_to_wav [] sample_rate = Inl (ValueError PcmDataMissing)"
  by (simp add: pcm_to_wav_def)

lemma configured_writer_close:
  assumes "0 < sample_rate" "header_fits 1 2 (nat sample_rate) 0"
  shows "with_wave_exit (configured_writer sample_rate) e = Inl e"
proof -
  obtain f where "wave_close (configured_writer sample_rate) = Inr f"
    using wave_close_unwritten [of "configured_writer sample_rate"] assms by auto
  then show ?thesis by (simp add: with_wave_exit_def)
qed

lemma pcm_to_wav_odd:
  assumes "odd (length pcm_data)" "0 < sample_rate" "header_fits 1 2 (nat sample_rate) 0"
  shows "pcm_to_wav pcm_data sample_rate =
           Inl (ValueError (WavConversionFailed
                  (ValueError (PcmConversionFailed (StructError (UnpackBufferSize (length pcm_data - 1)))))))"
proof -
  have "pcm_data \<noteq> []" using assms(1) by auto
  then show ?thesis
    using assms by (simp add: pcm_to_wav_def wave_write_block_unfold pcm_repack_odd configured_writer_close)
qed

lemma pcm_to_wav_overflow:
  assumes "pcm_data \<noteq> []" "even (length pcm_data)" "0 < sample_rate"
    and "header_fits 1 2 (nat sample_rate) 0"
    and "\<not> header_fits 1 2 (nat sample_rate) (length pcm_data)"
  shows "pcm_to_wav pcm_data sample_rate =
           Inl (ValueError (WavConversionFailed (StructError PackOutOfRange)))"
proof -
  have "wave_writeframes (configured_writer sample_rate) pcm_data = Inl (StructError PackOutOfRange)"
    using wave_writeframes_overflow [of "configured_writer sample_rate" pcm_data] assms(2,3,5) by simp
  then show ?thesis
    using assms by (simp add: pcm_to_wav_def wave_write_block_unfold pcm_repack_even configured_writer_close)
qed

text \<open>
  C16. A non-positive sample rate makes \<open>pcm_to_wav\<close> fail with a \<open>ValueError\<close>
  reporting that the frame rate is not set: \<open>setframerate\<close> raises "bad frame
  rate", and the \<open>with\<close> block's \<open>close()\<close> then raises "sampling rate not
  specified", which replaces it.
\<close>

lemma pcm_to_wav_bad_rate:
  assumes "pcm_data \<noteq> []" "sample_rate \<le> 0"
  shows "pcm_to_wav pcm_data sample_rate =
           Inl (ValueError (WavConversionFailed (WaveError FrameRateUnset)))"
  using assms
  by (simp add: pcm_to_wav_def wave_write_block_def Let_def wave_open_w_def wave_setnchannels_def
      wave_setsampwidth_def wave_setframerate_def with_wave_exit_def wave_close_def
      wave_ensure_header_written_def)

lemma pcm_to_wav_bad_rate_witness:
  "pcm_to_wav [0, 0] 0 = Inl (ValueError (WavConversionFailed (WaveError FrameRateUnset)))"
  using pcm_to_wav_bad_rate [of "[0, 0]" 0] by simp

lemma pcm_to_wav_ValueError:
  "pcm_to_wav pcm_data sample_rate = Inl e \<Longrightarrow> \<exists>v. e = ValueError v"
  by (auto simp: pcm_to_wav_def split: if_splits sum.splits)

subsection \<open>\<open>debug_wav_info\<close> on the container\<close>

lemma debug_wav_info_container:
  assumes "0 < sample_rate" "header_fits 1 2 (nat sample_rate) (length pcm_data)"
  shows "debug_wav_info (wav_container sample_rate pcm_data) =
           Inr (real (length pcm_data div 2) / real (nat sample_rate),
                (wav_container sample_rate pcm_data)\<lparr>bio_pos := 44\<rparr>)"
  using assms wave_read_canonical [of 1 2 "nat sample_rate" "length pcm_data" pcm_data]
  by (simp add: debug_wav_info_def wave_open_r_def wav_container_def bio_rest_def bio_seek_def)


text \<open>
  C14. Line 26 is the identity on an even-length body: \<open>struct.pack\<close> of
  \<open>struct.unpack\<close> with the same format gives the same bytes. On an odd-length
  body it raises \<open>struct.error\<close> for the buffer size \<open>2 * (len // 2)\<close>.
\<close>

lemma pcm_repack_identity:
  "pcm_repack pcm_data =
     (if even (length pcm_data) then Inr pcm_data
      else Inl (UnpackBufferSize (length pcm_data - 1)))"
  by (simp add: pcm_repack_even pcm_repack_odd)


subsection \<open>The normal path of the \<open>with\<close> block\<close>

lemma case_exit_eq_Inr:
  "(case x of Inl e \<Rightarrow> with_wave_exit w (h e) | Inr y \<Rightarrow> g y) = Inr f \<longleftrightarrow>
     (\<exists>y. x = Inr y \<and> g y = Inr f)"
  by (cases x) (simp_all add: with_wave_exit_def split: sum.split)

lemma pcm_repack_Inr: "pcm_repack pcm_data = Inr p \<Longrightarrow> p = pcm_data"
  by (cases "even (length pcm_data)") (simp_all add: pcm_repack_even pcm_repack_odd)

lemma wave_write_block_Inr:
  assumes "wave_write_block wav_file sample_rate pcm_data = Inr f"
  shows "\<exists>w1 w2 w3 w4. wave_setnchannels (wave_open_w wav_file) 1 = Inr w1 \<and>
           wave_setsampwidth w1 2 = Inr w2 \<and> wave_setframerate w2 sample_rate = Inr w3 \<and>
           wave_writeframes w3 pcm_data = Inr w4 \<and> wave_close w4 = Inr f"
proof -
  have "\<exists>w1. wave_setnchannels (wave_open_w wav_file) 1 = Inr w1 \<and>
        (\<exists>w2. wave_setsampwidth w1 2 = Inr w2 \<and>
        (\<exists>w3. wave_setframerate w2 sample_rate = Inr w3 \<and>
        (\<exists>p. pcm_repack pcm_data = Inr p \<and>
        (\<exists>w4. wave_writeframes w3 p = Inr w4 \<and> wave_close w4 = Inr f))))"
    using assms by (simp only: wave_write_block_def Let_def case_exit_eq_Inr)
  then show ?thesis using pcm_repack_Inr by blast
qed

end
