(* ===== verification/Gateway.thy ===== *)
theory Gateway
  imports WaveRead
begin

text \<open>
  The local half of the transcription gateway: what \<open>speech_recognition\<close> does with
  the stream before it calls Google. \<open>sr.AudioFile(wav_file)\<close> opens the stream with
  \<open>wave.open(f, 'rb')\<close> (falling back to AIFF and FLAC readers when that raises
  \<open>wave.Error\<close> or \<open>EOFError\<close>, and then raising \<open>ValueError\<close>), asserts one or two
  channels, and reads the samples through \<open>AudioFileStream.read\<close>, which calls
  \<open>Wave_read.readframes(4096)\<close> and mixes stereo down with \<open>audioop.tomono\<close>.
  \<open>recognizer.record(source)\<close> calls it until it returns no bytes and wraps the
  concatenation as \<open>AudioData(frame_data, SAMPLE_RATE, SAMPLE_WIDTH)\<close>.
  \<open>readframes\<close> reads through the data chunk's \<open>Chunk\<close> object, which never reads
  past the chunk's declared size. Google's service (\<open>recognize_google\<close>) and
  \<open>audioop.tomono\<close> are parameters; the program only writes mono audio, for which
  \<open>tomono\<close> is never called.
\<close>

record audio_data =
  ad_frame_data :: "byte list"
  ad_sample_rate :: nat
  ad_sample_width :: nat

text \<open>The data chunk being read: the bytes from the read position, and what is left of its size.\<close>

record data_chunk =
  dc_file :: "byte list"
  dc_left :: nat
  dc_nchannels :: nat
  dc_sampwidth :: nat

type_synonym tomono_fn = "nat \<Rightarrow> byte list \<Rightarrow> byte list"

type_synonym google_fn = "audio_data \<Rightarrow> string \<Rightarrow> py_exc + string"

text \<open>\<open>Chunk.read(size)\<close>: at most what is left of the chunk, at most what the file has.\<close>

definition chunk_read :: "data_chunk \<Rightarrow> nat \<Rightarrow> byte list \<times> data_chunk" where
  "chunk_read c nbytes =
     (let data = take (min nbytes (dc_left c)) (dc_file c)
      in (data, c\<lparr>dc_file := drop (length data) (dc_file c), dc_left := dc_left c - length data\<rparr>))"

text \<open>\<open>Wave_read.readframes(nframes)\<close>, the data chunk positioned already.\<close>

definition wave_readframes :: "data_chunk \<Rightarrow> nat \<Rightarrow> byte list \<times> data_chunk" where
  "wave_readframes c nframes =
     (if nframes = 0 then ([], c)
      else chunk_read c (nframes * (dc_nchannels c * dc_sampwidth c)))"

text \<open>
  \<open>AudioFileStream.read(4096)\<close>: a stereo buffer is mixed down; \<open>audioop.tomono\<close> of
  an empty fragment is empty, so an empty buffer stays empty.
\<close>

definition audio_stream_read :: "tomono_fn \<Rightarrow> data_chunk \<Rightarrow> byte list \<times> data_chunk" where
  "audio_stream_read tomono c =
     (let (buffer, c') = wave_readframes c 4096
      in (if dc_nchannels c \<noteq> 1 \<and> buffer \<noteq> [] then tomono (dc_sampwidth c) buffer else buffer, c'))"

text \<open>The loop of \<open>Recognizer.record(source)\<close> without \<open>duration\<close> or \<open>offset\<close>.\<close>

function record_loop :: "tomono_fn \<Rightarrow> data_chunk \<Rightarrow> byte list \<Rightarrow> byte list" where
  "record_loop tomono c frames =
     (let (buffer, c') = audio_stream_read tomono c
      in if buffer = [] then frames else record_loop tomono c' (frames @ buffer))"
  by pat_completeness auto
termination
  by (relation "measure (\<lambda>(tomono, c, frames). length (dc_file c))")
     (auto simp: audio_stream_read_def wave_readframes_def chunk_read_def Let_def
        split: if_splits prod.splits)

declare record_loop.simps [simp del]

text \<open>
  \<open>sr.AudioFile(f).__enter__\<close>: the header, the assertion on channels, and the data
  chunk, whose size is the four bytes before its first sample.
\<close>

definition audio_file_open :: "bytesio \<Rightarrow> py_exc + (wave_params \<times> data_chunk)" where
  "audio_file_open f =
     (case wave_open_r f of
        Inl (WaveError _) \<Rightarrow> Inl (LibraryError ''Audio file could not be read as PCM WAV, AIFF/AIFF-C, or Native FLAC'')
      | Inl EOFError \<Rightarrow> Inl (LibraryError ''Audio file could not be read as PCM WAV, AIFF/AIFF-C, or Native FLAC'')
      | Inl e \<Rightarrow> Inl e
      | Inr (p, f') \<Rightarrow>
          if wp_nchannels p < 1 \<or> 2 < wp_nchannels p
          then Inl (LibraryError ''Audio must be mono or stereo'')
          else Inr (p, \<lparr>dc_file = bio_rest f',
                        dc_left = nat (le_value (take 4 (drop (bio_pos f' - 4) (bio_buf f')))),
                        dc_nchannels = wp_nchannels p, dc_sampwidth = wp_sampwidth p\<rparr>))"

text \<open>\<open>with sr.AudioFile(f) as source: audio = recognizer.record(source)\<close>.\<close>

definition audio_file_record :: "tomono_fn \<Rightarrow> bytesio \<Rightarrow> py_exc + audio_data" where
  "audio_file_record tomono f =
     sbind (audio_file_open f)
       (\<lambda>(p, c). Inr \<lparr>ad_frame_data = record_loop tomono c [], ad_sample_rate = wp_framerate p,
                      ad_sample_width = wp_sampwidth p\<rparr>)"

text \<open>
  Lines 79--86 (Flask 70--77): the recogniser the handlers call, on the stream's bytes
  from its position, then \<open>recognize_google(audio, language=...)\<close>.
\<close>

definition sr_recognize :: "tomono_fn \<Rightarrow> google_fn \<Rightarrow> byte list \<Rightarrow> string \<Rightarrow> py_exc + string" where
  "sr_recognize tomono google bs language =
     sbind (audio_file_record tomono \<lparr>bio_buf = bs, bio_pos = 0\<rparr>) (\<lambda>audio. google audio language)"

subsection \<open>Lemmas\<close>

lemma take_split_read:
  "take (min k n) xs @ take (n - length (take (min k n) xs)) (drop (length (take (min k n) xs)) xs) =
   take n xs"
  by (simp add: min_def take_add [symmetric] split: if_splits)

lemma record_loop_mono:
  assumes "dc_nchannels c = 1" "0 < dc_sampwidth c"
  shows "record_loop tomono c frames = frames @ take (dc_left c) (dc_file c)"
  using assms
proof (induction tomono c frames rule: record_loop.induct)
  case (1 tomono c frames)
  define k where "k = 4096 * dc_sampwidth c"
  define data where "data = take (min k (dc_left c)) (dc_file c)"
  define c' where "c' = c\<lparr>dc_file := drop (length data) (dc_file c), dc_left := dc_left c - length data\<rparr>"
  have rd: "audio_stream_read tomono c = (data, c')"
    using "1.prems" by (simp add: audio_stream_read_def wave_readframes_def chunk_read_def Let_def
        k_def data_def c'_def)
  show ?case
  proof (cases "data = []")
    case True
    have "take (dc_left c) (dc_file c) = []"
      using True "1.prems" by (auto simp: data_def k_def min_def split: if_splits)
    then show ?thesis using True by (simp add: record_loop.simps [of tomono c frames] rd)
  next
    case False
    have ih: "record_loop tomono c' (frames @ data) = (frames @ data) @ take (dc_left c') (dc_file c')"
      using "1.IH" [OF rd [symmetric] refl False] "1.prems" by (simp add: c'_def)
    have "data @ take (dc_left c') (dc_file c') = take (dc_left c) (dc_file c)"
      unfolding c'_def data_def using take_split_read [of k "dc_left c" "dc_file c"]
      by (simp del: length_take)
    then show ?thesis using False ih by (simp add: record_loop.simps [of tomono c frames] rd)
  qed
qed


lemma data_chunk_size_canonical:
  assumes "header_fits nch sw rate (length d)"
  shows "nat (le_value (take 4 (drop 40 (canonical_header nch sw rate (length d) @ d)))) = length d"
proof -
  have "take 4 (drop 40 (canonical_header nch sw rate (length d) @ d)) = le_bytes 4 (int (length d))"
    using canonical_header_parts(2) [of nch sw rate "length d"]
    by (simp add: canonical_header_def)
  moreover have "int (length d) < 256 ^ 4" using assms by (simp add: header_fits_def)
  ultimately show ?thesis by simp
qed

lemma audio_file_record_container:
  assumes fits: "header_fits 1 2 rate (length d)"
  shows "audio_file_record tomono \<lparr>bio_buf = canonical_header 1 2 rate (length d) @ d, bio_pos = 0\<rparr> =
           Inr \<lparr>ad_frame_data = d, ad_sample_rate = rate, ad_sample_width = 2\<rparr>"
proof -
  have rd: "wave_read (canonical_header 1 2 rate (length d) @ d) =
          Inr (\<lparr>wp_nchannels = 1, wp_sampwidth = 2, wp_framerate = rate,
                 wp_nframes = length d div (1 * 2)\<rparr>, 44)"
    using fits by (rule wave_read_canonical) simp_all
  have loop: "record_loop tomono \<lparr>dc_file = d, dc_left = length d, dc_nchannels = 1, dc_sampwidth = 2\<rparr> [] = d"
    by (simp add: record_loop_mono)
  show ?thesis
    using rd loop data_chunk_size_canonical [OF fits]
    by (simp add: audio_file_record_def audio_file_open_def wave_open_r_def bio_rest_def bio_seek_def)
qed


subsection \<open>Properties\<close>

text \<open>
  C29. On mono audio, the loop of \<open>Recognizer.record\<close>, reading 4096 frames at a time
  until a read returns nothing, gets exactly what one read of the whole data chunk
  (\<open>Chunk.read()\<close>) gets: the chunk's declared size, or less if the file ends first.
\<close>

theorem record_loop_whole_chunk:
  assumes "dc_nchannels c = 1" "0 < dc_sampwidth c"
  shows "record_loop tomono c [] = fst (chunk_read c (dc_left c))"
  using record_loop_mono [OF assms, of tomono "[]"] by (simp add: chunk_read_def)

lemma record_loop_whole_chunk_witness:
  "record_loop (\<lambda>w b. b) \<lparr>dc_file = [1, 2, 3, 4, 5], dc_left = 4, dc_nchannels = 1, dc_sampwidth = 2\<rparr> [] =
     fst (chunk_read \<lparr>dc_file = [1, 2, 3, 4, 5], dc_left = 4, dc_nchannels = 1, dc_sampwidth = 2\<rparr> 4)"
  using record_loop_whole_chunk [of "\<lparr>dc_file = [1, 2, 3, 4, 5], dc_left = 4, dc_nchannels = 1, dc_sampwidth = 2\<rparr>"
      "\<lambda>w b. b"]
  by simp

end
