(* ===== verification/Handler.thy ===== *)
theory Handler
  imports Convert Gateway
begin

text \<open>
  The two HTTP front ends of \<open>POST /stt\<close>: \<open>speech_to_text\<close> in
  \<open>src/stt-engine/gstt_fastapi_rest.py\<close> (FastAPI, errors raised as
  \<open>HTTPException\<close>) and in \<open>src/stt-engine/gstt_flask.py\<close> (Flask, errors returned
  as JSON responses). Both run the same steps: reject an empty body, convert it with
  \<open>pcm_to_wav\<close>, measure it with \<open>debug_wav_info\<close> and reject less than 0.3 s, rewind
  the stream and hand it to Google's recogniser with language \<open>ko-KR\<close>.

  The recogniser is an external collaborator, a parameter of type \<open>recognizer\<close>:
  it stands for \<open>sr.AudioFile(wav_file)\<close>, \<open>recognizer.record(source)\<close> and
  \<open>recognizer.recognize_google(audio, language=...)\<close> together, and receives the
  bytes of the stream from its current position and the language tag. It returns the
  text, or raises \<open>UnknownValueError\<close> (no speech), \<open>RequestError\<close> (service
  failure) or any other exception.
\<close>

type_synonym recognizer = "byte list \<Rightarrow> string \<Rightarrow> py_exc + string"

datatype response_body =
    JsonText string
  | JsonError error_body
  | JsonDetail error_body

record http_response =
  status :: nat
  body :: response_body

text \<open>\<open>if duration < 0.3\<close>; the duration is \<open>frames / float(framerate)\<close>.\<close>

definition min_duration :: real where
  "min_duration = 3 / 10"

text \<open>FastAPI, lines 52--96: the body of the outer \<open>try\<close>.\<close>

definition fastapi_route_body :: "recognizer \<Rightarrow> byte list \<Rightarrow> py_exc + http_response" where
  "fastapi_route_body recognize pcm_data =
     (if pcm_data = [] then Inl (HTTPException 400 NoAudioData)
      else
        sbind (case pcm_to_wav pcm_data 48000 of
                 Inl (ValueError v) \<Rightarrow> Inl (HTTPException 400 (ConversionError v))
               | Inl e \<Rightarrow> Inl e
               | Inr wav_file \<Rightarrow> Inr wav_file)
          (\<lambda>wav_file. sbind (debug_wav_info wav_file)
            (\<lambda>(duration, wav_file).
               if duration < min_duration then Inl (HTTPException 400 (AudioTooShort duration))
               else
                 (let wav_file = bio_seek wav_file 0
                  in case recognize (bio_rest wav_file) ''ko-KR'' of
                       Inr text \<Rightarrow> Inr \<lparr>status = 200, body = JsonText text\<rparr>
                     | Inl UnknownValueError \<Rightarrow> Inl (HTTPException 400 SpeechNotRecognized)
                     | Inl (RequestError d) \<Rightarrow> Inl (HTTPException 500 (SttServerError d))
                     | Inl e \<Rightarrow> Inl e))))"

text \<open>
  FastAPI, lines 50--101: \<open>except Exception as e\<close> catches every exception of the
  body, the \<open>HTTPException\<close>s raised there included, and raises
  \<open>HTTPException(500, ...)\<close>, which FastAPI renders as \<open>{"detail": ...}\<close>.
\<close>

definition fastapi_speech_to_text :: "recognizer \<Rightarrow> byte list \<Rightarrow> http_response" where
  "fastapi_speech_to_text recognize pcm_data =
     (case fastapi_route_body recognize pcm_data of
        Inr r \<Rightarrow> r
      | Inl e \<Rightarrow> \<lparr>status = 500, body = JsonDetail (InternalError e)\<rparr>)"

text \<open>
  Flask, lines 41--87: the body of the outer \<open>try\<close>, returning its error responses; it
  calls the file's own \<open>pcm_to_wav\<close> and \<open>debug_wav_info\<close>.
\<close>

definition flask_route_body :: "recognizer \<Rightarrow> byte list \<Rightarrow> py_exc + http_response" where
  "flask_route_body recognize pcm_data =
     (if pcm_data = [] then Inr \<lparr>status = 400, body = JsonError NoAudioData\<rparr>
      else
        (case pcm_to_wav_flask pcm_data 48000 of
           Inl (ValueError v) \<Rightarrow> Inr \<lparr>status = 400, body = JsonError (ConversionError v)\<rparr>
         | Inl e \<Rightarrow> Inl e
         | Inr wav_file \<Rightarrow>
             (case debug_wav_info_flask wav_file of
                Inl e \<Rightarrow> Inl e
              | Inr (duration, wav_file) \<Rightarrow>
                  if duration < min_duration
                  then Inr \<lparr>status = 400, body = JsonError (AudioTooShort duration)\<rparr>
                  else
                    (let wav_file = bio_seek wav_file 0
                     in case recognize (bio_rest wav_file) ''ko-KR'' of
                          Inr text \<Rightarrow> Inr \<lparr>status = 200, body = JsonText text\<rparr>
                        | Inl UnknownValueError \<Rightarrow>
                            Inr \<lparr>status = 400, body = JsonError SpeechNotRecognized\<rparr>
                        | Inl (RequestError d) \<Rightarrow>
                            Inr \<lparr>status = 500, body = JsonError (SttServerError d)\<rparr>
                        | Inl e \<Rightarrow> Inl e))))"

text \<open>Flask, lines 39--92: the outer \<open>except Exception\<close> answers 500.\<close>

definition flask_speech_to_text :: "recognizer \<Rightarrow> byte list \<Rightarrow> http_response" where
  "flask_speech_to_text recognize pcm_data =
     (case flask_route_body recognize pcm_data of
        Inr r \<Rightarrow> r
      | Inl e \<Rightarrow> \<lparr>status = 500, body = JsonError (InternalError e)\<rparr>)"

text \<open>The bytes the recogniser is given for a well-formed body.\<close>

definition wav_bytes :: "byte list \<Rightarrow> byte list" where
  "wav_bytes pcm_data = canonical_header 1 2 48000 (length pcm_data) @ pcm_data"

text \<open>The bodies the pipeline accepts up to the recogniser.\<close>

definition well_formed_body :: "byte list \<Rightarrow> bool" where
  "well_formed_body pcm_data \<longleftrightarrow>
     pcm_data \<noteq> [] \<and> even (length pcm_data) \<and> length pcm_data \<le> 4294967259"

text \<open>
  The contract between the two front ends: a Flask error response, raised as the
  \<open>HTTPException\<close> with the same status and error body, as the FastAPI body does.
\<close>

definition raise_response :: "http_response \<Rightarrow> py_exc + http_response" where
  "raise_response r =
     (case body r of
        JsonError b \<Rightarrow> if status r = 200 then Inr r else Inl (HTTPException (status r) b)
      | _ \<Rightarrow> Inr r)"

text \<open>
  The shape of a response: a transcript only with 200, an error body only with a client
  or server error status.
\<close>

fun response_well_typed :: "http_response \<Rightarrow> bool" where
  "response_well_typed r =
     (case body r of
        JsonText _ \<Rightarrow> status r = 200
      | JsonError _ \<Rightarrow> status r = 400 \<or> status r = 500
      | JsonDetail _ \<Rightarrow> status r = 400 \<or> status r = 500)"

subsection \<open>The shared pipeline up to the recogniser\<close>

lemma header_fits_48k: "header_fits 1 2 48000 n \<longleftrightarrow> n \<le> 4294967259"
  by (simp add: header_fits_def)

lemma duration_short_iff: "real n / real (nat 48000) < min_duration \<longleftrightarrow> n < 14400"
  by (simp add: min_duration_def divide_less_eq)

lemma pipeline_well_formed:
  assumes "well_formed_body pcm_data"
  shows "pcm_to_wav pcm_data 48000 = Inr (wav_container 48000 pcm_data)"
    and "debug_wav_info (wav_container 48000 pcm_data) =
           Inr (real (length pcm_data div 2) / real (nat 48000),
                (wav_container 48000 pcm_data)\<lparr>bio_pos := 44\<rparr>)"
    and "bio_rest (bio_seek ((wav_container 48000 pcm_data)\<lparr>bio_pos := 44\<rparr>) 0) = wav_bytes pcm_data"
proof -
  have fits: "header_fits 1 2 (nat 48000) (length pcm_data)"
    using assms by (simp add: well_formed_body_def header_fits_def)
  show "pcm_to_wav pcm_data 48000 = Inr (wav_container 48000 pcm_data)"
    using assms fits by (intro pcm_to_wav_ok) (simp_all add: well_formed_body_def)
  show "debug_wav_info (wav_container 48000 pcm_data) =
           Inr (real (length pcm_data div 2) / real (nat 48000),
                (wav_container 48000 pcm_data)\<lparr>bio_pos := 44\<rparr>)"
    using fits by (intro debug_wav_info_container) simp_all
  show "bio_rest (bio_seek ((wav_container 48000 pcm_data)\<lparr>bio_pos := 44\<rparr>) 0) = wav_bytes pcm_data"
    by (simp add: wav_container_def wav_bytes_def bio_rest_def bio_seek_def)
qed


lemma pcm_to_wav_48k_Inr:
  "pcm_to_wav pcm_data 48000 = Inr w \<Longrightarrow> well_formed_body pcm_data \<and> w = wav_container 48000 pcm_data"
proof -
  assume a: "pcm_to_wav pcm_data 48000 = Inr w"
  have "well_formed_body pcm_data"
  proof (rule ccontr)
    assume nw: "\<not> well_formed_body pcm_data"
    have h0: "header_fits 1 2 (nat 48000) 0" by (simp add: header_fits_def)
    show False
    proof (cases "pcm_data = []")
      case True then show False using a pcm_to_wav_empty by simp
    next
      case ne: False
      show False
      proof (cases "even (length pcm_data)")
        case True
        then have "\<not> header_fits 1 2 (nat 48000) (length pcm_data)"
          using nw ne by (simp add: well_formed_body_def header_fits_def)
        then show False using a pcm_to_wav_overflow [OF ne True _ h0] by simp
      next
        case False
        then show False using a pcm_to_wav_odd [OF False _ h0] by simp
      qed
    qed
  qed
  then show ?thesis using a pipeline_well_formed(1) by simp
qed

lemma pcm_to_wav_48k_Inl:
  "\<not> well_formed_body pcm_data \<Longrightarrow> \<exists>v. pcm_to_wav pcm_data 48000 = Inl (ValueError v)"
  using pcm_to_wav_48k_Inr pcm_to_wav_ValueError
  by (cases "pcm_to_wav pcm_data 48000") blast+

lemma flask_route_well_formed:
  assumes "well_formed_body pcm_data"
  shows "flask_route_body recognize pcm_data =
    (if length pcm_data div 2 < 14400
     then Inr \<lparr>status = 400, body = JsonError (AudioTooShort (real (length pcm_data div 2) / 48000))\<rparr>
     else (case recognize (wav_bytes pcm_data) ''ko-KR'' of
             Inr text \<Rightarrow> Inr \<lparr>status = 200, body = JsonText text\<rparr>
           | Inl UnknownValueError \<Rightarrow> Inr \<lparr>status = 400, body = JsonError SpeechNotRecognized\<rparr>
           | Inl (RequestError d) \<Rightarrow> Inr \<lparr>status = 500, body = JsonError (SttServerError d)\<rparr>
           | Inl e \<Rightarrow> Inl e))"
  using assms pipeline_well_formed [OF assms] duration_short_iff [of "length pcm_data div 2"]
  by (simp add: flask_route_body_def well_formed_body_def Let_def)

lemma fastapi_route_well_formed:
  assumes "well_formed_body pcm_data"
  shows "fastapi_route_body recognize pcm_data =
    (if length pcm_data div 2 < 14400
     then Inl (HTTPException 400 (AudioTooShort (real (length pcm_data div 2) / 48000)))
     else (case recognize (wav_bytes pcm_data) ''ko-KR'' of
             Inr text \<Rightarrow> Inr \<lparr>status = 200, body = JsonText text\<rparr>
           | Inl UnknownValueError \<Rightarrow> Inl (HTTPException 400 SpeechNotRecognized)
           | Inl (RequestError d) \<Rightarrow> Inl (HTTPException 500 (SttServerError d))
           | Inl e \<Rightarrow> Inl e))"
  using assms pipeline_well_formed [OF assms] duration_short_iff [of "length pcm_data div 2"]
  by (simp add: fastapi_route_body_def well_formed_body_def Let_def)

lemma flask_route_ill_formed:
  assumes "\<not> well_formed_body pcm_data"
  shows "\<exists>eb. \<forall>recognize.
           flask_route_body recognize pcm_data = Inr \<lparr>status = 400, body = JsonError eb\<rparr> \<and>
           fastapi_route_body recognize pcm_data = Inl (HTTPException 400 eb)"
proof (cases "pcm_data = []")
  case True then show ?thesis by (simp add: flask_route_body_def fastapi_route_body_def)
next
  case False
  obtain v where "pcm_to_wav pcm_data 48000 = Inl (ValueError v)"
    using pcm_to_wav_48k_Inl [OF assms] by blast
  with False show ?thesis by (simp add: flask_route_body_def fastapi_route_body_def)
qed

lemma fastapi_route_Inr:
  "fastapi_route_body recognize pcm_data = Inr r \<Longrightarrow> status r = 200"
proof (cases "well_formed_body pcm_data")
  case True
  then show "fastapi_route_body recognize pcm_data = Inr r \<Longrightarrow> status r = 200"
    by (auto simp: fastapi_route_well_formed split: if_splits sum.splits py_exc.splits)
next
  case False
  then show "fastapi_route_body recognize pcm_data = Inr r \<Longrightarrow> status r = 200"
    using flask_route_ill_formed [OF False] by auto
qed

subsection \<open>Properties of the two front ends\<close>

text \<open>
  C1. The FastAPI front end never answers 400: every response is 200 or 500, because
  the outer \<open>except Exception\<close> also catches the \<open>HTTPException(400)\<close> raised in
  the body. The error taxonomy promises 400 for empty, malformed, too short and
  unrecognised audio.
\<close>

lemma fastapi_status:
  "status (fastapi_speech_to_text recognize pcm_data) \<in> {200, 500}"
  using fastapi_route_Inr [of recognize pcm_data]
  by (auto simp: fastapi_speech_to_text_def split: sum.split)

text \<open>
  C2. FastAPI refines Flask: the body of the FastAPI handler ends exactly where the Flask
  handler ends, raising as an \<open>HTTPException\<close> the status and error body Flask returns.
\<close>

lemma fastapi_refines_flask:
  "fastapi_route_body recognize pcm_data = sbind (flask_route_body recognize pcm_data) raise_response"
proof (cases "well_formed_body pcm_data")
  case True
  then show ?thesis
    by (simp add: flask_route_well_formed fastapi_route_well_formed raise_response_def
        split: sum.split py_exc.split)
next
  case False
  then show ?thesis using flask_route_ill_formed [OF False]
    by (auto simp: raise_response_def)
qed

text \<open>
  C3. A well-formed body of at least 0.3 s (14400 samples at 48 kHz) is answered 200 with
  the recogniser's text by Flask.
\<close>

lemma flask_accepts:
  assumes "well_formed_body pcm_data" "14400 \<le> length pcm_data div 2"
    and "recognize (wav_bytes pcm_data) ''ko-KR'' = Inr transcript"
  shows "flask_speech_to_text recognize pcm_data = \<lparr>status = 200, body = JsonText transcript\<rparr>"
  using assms by (simp add: flask_speech_to_text_def flask_route_well_formed)

lemma flask_accepts_witness:
  "flask_speech_to_text (\<lambda>bs lang. Inr ''annyeong'') (replicate 96000 0) =
     \<lparr>status = 200, body = JsonText ''annyeong''\<rparr>"
  using flask_accepts [where pcm_data = "replicate 96000 0"
      and recognize = "\<lambda>bs lang. Inr ''annyeong''" and transcript = "''annyeong''"]
  by (simp add: well_formed_body_def)

text \<open>
  C4. A well-formed body shorter than 14400 samples is rejected by Flask with 400 and its
  duration, whatever the recogniser would say.
\<close>

lemma flask_too_short:
  assumes "well_formed_body pcm_data" "length pcm_data div 2 < 14400"
  shows "flask_speech_to_text recognize pcm_data =
           \<lparr>status = 400, body = JsonError (AudioTooShort (real (length pcm_data div 2) / 48000))\<rparr>"
  using assms by (simp add: flask_speech_to_text_def flask_route_well_formed)

lemma flask_too_short_witness:
  "flask_speech_to_text (\<lambda>bs lang. Inr ''x'') (replicate 10000 0) =
     \<lparr>status = 400, body = JsonError (AudioTooShort (real (5000::nat) / 48000))\<rparr>"
  using flask_too_short [where pcm_data = "replicate 10000 0" and recognize = "\<lambda>bs lang. Inr ''x''"]
  by (simp add: well_formed_body_def)


text \<open>
  C5. When the recogniser finds no speech in a long enough body, Flask answers 400.
\<close>

lemma flask_no_speech:
  assumes "well_formed_body pcm_data" "14400 \<le> length pcm_data div 2"
    and "recognize (wav_bytes pcm_data) ''ko-KR'' = Inl UnknownValueError"
  shows "flask_speech_to_text recognize pcm_data =
           \<lparr>status = 400, body = JsonError SpeechNotRecognized\<rparr>"
  using assms by (simp add: flask_speech_to_text_def flask_route_well_formed)

lemma flask_no_speech_witness:
  "flask_speech_to_text (\<lambda>bs lang. Inl UnknownValueError) (replicate 96000 0) =
     \<lparr>status = 400, body = JsonError SpeechNotRecognized\<rparr>"
  using flask_no_speech [where pcm_data = "replicate 96000 0"
      and recognize = "\<lambda>bs lang. Inl UnknownValueError"]
  by (simp add: well_formed_body_def)

text \<open>
  C6. When the recognition service fails, Flask answers 500 with the service's message.
\<close>

lemma flask_request_error:
  assumes "well_formed_body pcm_data" "14400 \<le> length pcm_data div 2"
    and "recognize (wav_bytes pcm_data) ''ko-KR'' = Inl (RequestError msg)"
  shows "flask_speech_to_text recognize pcm_data =
           \<lparr>status = 500, body = JsonError (SttServerError msg)\<rparr>"
  using assms by (simp add: flask_speech_to_text_def flask_route_well_formed)

lemma flask_request_error_witness:
  "flask_speech_to_text (\<lambda>bs lang. Inl (RequestError ''quota''))  (replicate 96000 0) =
     \<lparr>status = 500, body = JsonError (SttServerError ''quota'')\<rparr>"
  using flask_request_error [where pcm_data = "replicate 96000 0"
      and recognize = "\<lambda>bs lang. Inl (RequestError ''quota'')" and msg = "''quota''"]
  by (simp add: well_formed_body_def)

text \<open>
  C7. A body of odd length is answered 400 by Flask: \<open>struct.unpack\<close> refuses it, and
  the error reaches the client wrapped twice in \<open>ValueError\<close>, by line 28 and by
  line 36.
\<close>

lemma flask_odd:
  assumes "odd (length pcm_data)"
  shows "flask_speech_to_text recognize pcm_data =
           \<lparr>status = 400, body = JsonError (ConversionError (WavConversionFailed
              (ValueError (PcmConversionFailed (StructError (UnpackBufferSize (length pcm_data - 1)))))))\<rparr>"
proof -
  have "pcm_data \<noteq> []" using assms by auto
  moreover have "header_fits 1 2 (nat 48000) 0" by (simp add: header_fits_def)
  ultimately show ?thesis
    using pcm_to_wav_odd [OF assms, of 48000]
    by (simp add: flask_speech_to_text_def flask_route_body_def)
qed

lemma flask_odd_witness:
  "flask_speech_to_text (\<lambda>bs lang. Inr ''x'') [0, 0, 0] =
     \<lparr>status = 400, body = JsonError (ConversionError (WavConversionFailed
        (ValueError (PcmConversionFailed (StructError (UnpackBufferSize 2))))))\<rparr>"
  using flask_odd [where pcm_data = "[0, 0, 0]" and recognize = "\<lambda>bs lang. Inr ''x''"]
  by simp

text \<open>
  C8. A body too long for the 32-bit sizes of the WAV header (more than 4294967259
  bytes) is answered 400 by Flask: \<open>struct.pack\<close> of the header overflows.
\<close>

lemma flask_oversized:
  assumes "even (length pcm_data)" "4294967259 < length pcm_data"
  shows "flask_speech_to_text recognize pcm_data =
           \<lparr>status = 400, body = JsonError (ConversionError (WavConversionFailed
              (StructError PackOutOfRange)))\<rparr>"
proof -
  have ne: "pcm_data \<noteq> []" using assms(2) by auto
  have "pcm_to_wav pcm_data 48000 = Inl (ValueError (WavConversionFailed (StructError PackOutOfRange)))"
    using assms by (intro pcm_to_wav_overflow ne) (simp_all add: header_fits_def)
  with ne show ?thesis
    by (simp add: flask_speech_to_text_def flask_route_body_def)
qed

lemma flask_oversized_witness:
  "flask_speech_to_text (\<lambda>bs lang. Inr ''x'') (replicate 4294967260 0) =
     \<lparr>status = 400, body = JsonError (ConversionError (WavConversionFailed
        (StructError PackOutOfRange)))\<rparr>"
  using flask_oversized [where pcm_data = "replicate 4294967260 0" and recognize = "\<lambda>bs lang. Inr ''x''"]
  by simp

text \<open>
  C9. The inputs \<open>pcm_to_wav\<close> accepts at the handlers' rate are exactly the non-empty
  bodies of even length up to 4294967258 bytes, the largest whose sizes the 32-bit
  fields of the WAV header can hold; every other body raises \<open>ValueError\<close>.
\<close>

theorem pcm_to_wav_accepts:
  "(\<exists>f. pcm_to_wav pcm_data 48000 = Inr f) \<longleftrightarrow>
     pcm_data \<noteq> [] \<and> even (length pcm_data) \<and> length pcm_data \<le> 4294967258"
proof
  assume "\<exists>f. pcm_to_wav pcm_data 48000 = Inr f"
  then have wf: "well_formed_body pcm_data" using pcm_to_wav_48k_Inr by blast
  then obtain k where "length pcm_data = 2 * k" by (auto simp: well_formed_body_def elim: evenE)
  with wf show "pcm_data \<noteq> [] \<and> even (length pcm_data) \<and> length pcm_data \<le> 4294967258"
    by (simp add: well_formed_body_def)
next
  assume "pcm_data \<noteq> [] \<and> even (length pcm_data) \<and> length pcm_data \<le> 4294967258"
  then have "well_formed_body pcm_data" by (simp add: well_formed_body_def)
  then show "\<exists>f. pcm_to_wav pcm_data 48000 = Inr f" using pipeline_well_formed(1) by blast
qed

lemma pcm_to_wav_accepts_witness:
  "(\<exists>f. pcm_to_wav (replicate 4294967258 0) 48000 = Inr f) \<and>
   \<not> (\<exists>f. pcm_to_wav (replicate 4294967260 0) 48000 = Inr f)"
  using pcm_to_wav_accepts [of "replicate 4294967258 0"] pcm_to_wav_accepts [of "replicate 4294967260 0"]
  by simp

text \<open>
  C10. The recogniser sees exactly the WAV container of the body, from its first byte,
  and the language \<open>ko-KR\<close>: two recognisers that agree there give the same
  response, in both front ends. The witness takes 14400 samples, enough to reach the
  recogniser, and a second recogniser that differs from the first on every other input.
\<close>

lemma recognizer_input:
  assumes "recognize (wav_bytes pcm_data) ''ko-KR'' = recognize' (wav_bytes pcm_data) ''ko-KR''"
  shows "flask_speech_to_text recognize pcm_data = flask_speech_to_text recognize' pcm_data \<and>
         fastapi_speech_to_text recognize pcm_data = fastapi_speech_to_text recognize' pcm_data"
proof (cases "well_formed_body pcm_data")
  case True
  then show ?thesis using assms
    by (simp add: flask_speech_to_text_def fastapi_speech_to_text_def
        flask_route_well_formed fastapi_route_well_formed)
next
  case False
  then show ?thesis using flask_route_ill_formed [OF False]
    by (auto simp: flask_speech_to_text_def fastapi_speech_to_text_def)
qed

lemma recognizer_input_witness:
  "flask_speech_to_text (\<lambda>bs lang. Inr ''a'') (replicate 28800 0) =
   flask_speech_to_text (\<lambda>bs lang. if bs = wav_bytes (replicate 28800 0) \<and> lang = ''ko-KR''
      then Inr ''a'' else Inl UnknownValueError) (replicate 28800 0) \<and>
   fastapi_speech_to_text (\<lambda>bs lang. Inr ''a'') (replicate 28800 0) =
   fastapi_speech_to_text (\<lambda>bs lang. if bs = wav_bytes (replicate 28800 0) \<and> lang = ''ko-KR''
      then Inr ''a'' else Inl UnknownValueError) (replicate 28800 0)"
  by (rule recognizer_input) simp

text \<open>
  C11. A well-formed body of at least 0.3 s is answered 200 with the recogniser's text by
  FastAPI as well.
\<close>

lemma fastapi_accepts:
  assumes "well_formed_body pcm_data" "14400 \<le> length pcm_data div 2"
    and "recognize (wav_bytes pcm_data) ''ko-KR'' = Inr transcript"
  shows "fastapi_speech_to_text recognize pcm_data = \<lparr>status = 200, body = JsonText transcript\<rparr>"
  using assms by (simp add: fastapi_speech_to_text_def fastapi_route_well_formed)

lemma fastapi_accepts_witness:
  "fastapi_speech_to_text (\<lambda>bs lang. Inr ''annyeong'') (replicate 96000 0) =
     \<lparr>status = 200, body = JsonText ''annyeong''\<rparr>"
  using fastapi_accepts [where pcm_data = "replicate 96000 0"
      and recognize = "\<lambda>bs lang. Inr ''annyeong''" and transcript = "''annyeong''"]
  by (simp add: well_formed_body_def)


text \<open>
  C25. Every response of either front end is well typed: a 200 carries the transcript
  and nothing else does; every other response carries an error body and has status 400
  or 500.
\<close>

theorem responses_well_typed:
  "response_well_typed (flask_speech_to_text recognize pcm_data) \<and>
   response_well_typed (fastapi_speech_to_text recognize pcm_data)"
proof (cases "well_formed_body pcm_data")
  case True
  then show ?thesis
    by (simp add: flask_speech_to_text_def fastapi_speech_to_text_def
        flask_route_well_formed fastapi_route_well_formed split: sum.split py_exc.split)
next
  case False
  then show ?thesis using flask_route_ill_formed [OF False]
    by (auto simp: flask_speech_to_text_def fastapi_speech_to_text_def)
qed

text \<open>
  C26. The recogniser, the one network call, is made only after validation: for a body
  that is empty, malformed, too long for the header or shorter than 0.3 s, both front
  ends answer the same whatever the recogniser would have said.
\<close>

theorem no_recognition_before_validation:
  assumes "\<not> (well_formed_body pcm_data \<and> 14400 \<le> length pcm_data div 2)"
  shows "flask_speech_to_text recognize pcm_data = flask_speech_to_text recognize' pcm_data \<and>
         fastapi_speech_to_text recognize pcm_data = fastapi_speech_to_text recognize' pcm_data"
proof (cases "well_formed_body pcm_data")
  case True
  then have "length pcm_data div 2 < 14400" using assms by simp
  with True show ?thesis
    by (simp add: flask_speech_to_text_def fastapi_speech_to_text_def
        flask_route_well_formed fastapi_route_well_formed)
next
  case False
  then show ?thesis using flask_route_ill_formed [OF False]
    by (auto simp: flask_speech_to_text_def fastapi_speech_to_text_def)
qed

lemma no_recognition_before_validation_witness:
  "flask_speech_to_text (\<lambda>bs lang. Inr ''a'') (replicate 10000 0) =
     flask_speech_to_text (\<lambda>bs lang. Inl (RequestError ''down'')) (replicate 10000 0) \<and>
   fastapi_speech_to_text (\<lambda>bs lang. Inr ''a'') (replicate 10000 0) =
     fastapi_speech_to_text (\<lambda>bs lang. Inl (RequestError ''down'')) (replicate 10000 0)"
  using no_recognition_before_validation [where pcm_data = "replicate 10000 0"
      and recognize = "\<lambda>bs lang. Inr ''a''" and recognize' = "\<lambda>bs lang. Inl (RequestError ''down'')"]
  by (simp add: well_formed_body_def)


text \<open>
  C28. When the recogniser finds no speech, FastAPI answers 500, reporting the
  \<open>HTTPException(400)\<close> of line 90 as an internal error; the spec's scenario D asks for
  400 and "never a 500".
\<close>

theorem fastapi_no_speech:
  assumes "well_formed_body pcm_data" "14400 \<le> length pcm_data div 2"
    and "recognize (wav_bytes pcm_data) ''ko-KR'' = Inl UnknownValueError"
  shows "fastapi_speech_to_text recognize pcm_data =
           \<lparr>status = 500, body = JsonDetail (InternalError (HTTPException 400 SpeechNotRecognized))\<rparr>"
  using assms by (simp add: fastapi_speech_to_text_def fastapi_route_well_formed)

lemma fastapi_no_speech_witness:
  "fastapi_speech_to_text (\<lambda>bs lang. Inl UnknownValueError) (replicate 192000 0) =
     \<lparr>status = 500, body = JsonDetail (InternalError (HTTPException 400 SpeechNotRecognized))\<rparr>"
  using fastapi_no_speech [where pcm_data = "replicate 192000 0"
      and recognize = "\<lambda>bs lang. Inl UnknownValueError"]
  by (simp add: well_formed_body_def)


text \<open>
  C30. Through \<open>speech_recognition\<close>, Google receives exactly the request's samples,
  labelled 48000 Hz and two bytes a sample: the WAV container the handlers hand over
  is read back by \<open>sr.AudioFile\<close> and \<open>record\<close> without loss.
\<close>

theorem gateway_receives_samples:
  assumes "well_formed_body pcm_data"
  shows "sr_recognize tomono google (wav_bytes pcm_data) language =
           google \<lparr>ad_frame_data = pcm_data, ad_sample_rate = 48000, ad_sample_width = 2\<rparr> language"
  using assms audio_file_record_container [of 48000 pcm_data tomono]
  by (simp add: sr_recognize_def wav_bytes_def well_formed_body_def header_fits_def)

lemma gateway_receives_samples_witness:
  "sr_recognize (\<lambda>w b. b) (\<lambda>a l. if ad_frame_data a = [1, 0] then Inr ''ok'' else Inr ''no'')
      (wav_bytes [1, 0]) ''ko-KR'' = Inr ''ok''"
  using gateway_receives_samples [where pcm_data = "[1, 0]" and tomono = "\<lambda>w b. b"
      and google = "\<lambda>a l. if ad_frame_data a = [1, 0] then Inr ''ok'' else Inr ''no''"
      and language = "''ko-KR''"]
  by (simp add: well_formed_body_def)

text \<open>
  C31. With the real gateway in place of the recogniser, a well-formed body of at least
  0.3 s is answered 200 by both front ends with the text Google returns for the
  request's own samples at 48000 Hz, 16 bits.
\<close>

theorem speech_to_text_via_gateway:
  assumes "well_formed_body pcm_data" "14400 \<le> length pcm_data div 2"
    and "google \<lparr>ad_frame_data = pcm_data, ad_sample_rate = 48000, ad_sample_width = 2\<rparr> ''ko-KR'' =
           Inr transcript"
  shows "flask_speech_to_text (sr_recognize tomono google) pcm_data =
           \<lparr>status = 200, body = JsonText transcript\<rparr> \<and>
         fastapi_speech_to_text (sr_recognize tomono google) pcm_data =
           \<lparr>status = 200, body = JsonText transcript\<rparr>"
proof -
  have "sr_recognize tomono google (wav_bytes pcm_data) ''ko-KR'' = Inr transcript"
    using assms audio_file_record_container [of 48000 pcm_data tomono]
    by (simp add: sr_recognize_def wav_bytes_def well_formed_body_def header_fits_def)
  then show ?thesis
    using assms(1,2)
    by (simp add: flask_speech_to_text_def fastapi_speech_to_text_def
        flask_route_well_formed fastapi_route_well_formed)
qed

lemma speech_to_text_via_gateway_witness:
  "flask_speech_to_text (sr_recognize (\<lambda>w b. b) (\<lambda>a l. Inr ''annyeong'')) (replicate 96000 0) =
     \<lparr>status = 200, body = JsonText ''annyeong''\<rparr> \<and>
   fastapi_speech_to_text (sr_recognize (\<lambda>w b. b) (\<lambda>a l. Inr ''annyeong'')) (replicate 96000 0) =
     \<lparr>status = 200, body = JsonText ''annyeong''\<rparr>"
  using speech_to_text_via_gateway [where pcm_data = "replicate 96000 0" and tomono = "\<lambda>w b. b"
      and google = "\<lambda>a l. Inr ''annyeong''" and transcript = "''annyeong''"]
  by (simp add: well_formed_body_def)

end
