(* ===== verification/WaveWriteMachine.thy ===== *)
theory WaveWriteMachine
  imports WaveWrite
begin

text \<open>
  \<open>wave.Wave_write\<close> as a state machine: the methods a caller may invoke on an open
  writer, in any order, each a step that returns the new writer or raises. A writer is
  reachable when some sequence of successful calls leads to it from
  \<open>wave.open(io.BytesIO(), 'wb')\<close>. The invariant says what the stream holds in every
  reachable state: nothing before the header is written, and afterwards a 44-byte header
  followed by exactly the bytes written, with the form length at offset 4 and the data
  length at offset 40, the positions \<open>_patchheader\<close> rewrites.
\<close>

datatype ww_call =
    SetNChannels int
  | SetSampWidth int
  | SetFrameRate int
  | WriteFramesRaw "byte list"
  | WriteFrames "byte list"

fun ww_step :: "wave_writer \<Rightarrow> ww_call \<Rightarrow> py_exc + wave_writer" where
  "ww_step w (SetNChannels n) = wave_setnchannels w n"
| "ww_step w (SetSampWidth n) = wave_setsampwidth w n"
| "ww_step w (SetFrameRate r) = wave_setframerate w r"
| "ww_step w (WriteFramesRaw d) = wave_writeframesraw w d"
| "ww_step w (WriteFrames d) = wave_writeframes w d"

text \<open>A sequence of calls; the first exception propagates and ends it.\<close>

fun ww_run :: "wave_writer \<Rightarrow> ww_call list \<Rightarrow> py_exc + wave_writer" where
  "ww_run w [] = Inr w"
| "ww_run w (c # cs) = sbind (ww_step w c) (\<lambda>w'. ww_run w' cs)"

inductive ww_reach :: "wave_writer \<Rightarrow> bool" where
  opened: "ww_reach (wave_open_w bio_new)"
| called: "ww_reach w \<Longrightarrow> ww_step w c = Inr w' \<Longrightarrow> ww_reach w'"

definition header_sizes :: "byte list \<Rightarrow> nat \<Rightarrow> bool" where
  "header_sizes buf dl \<longleftrightarrow>
     take 4 buf = ascii ''RIFF'' \<and>
     take 4 (drop 4 buf) = le_bytes 4 (int (36 + dl)) \<and>
     take 4 (drop 40 buf) = le_bytes 4 (int dl)"

definition ww_inv :: "wave_writer \<Rightarrow> bool" where
  "ww_inv w \<longleftrightarrow>
     bio_at_end (ww_file w) \<and>
     (if ww_headerwritten w
      then length (bio_buf (ww_file w)) = 44 + ww_datawritten w \<and>
           ww_form_length_pos w = 4 \<and> ww_data_length_pos w = 40 \<and>
           header_sizes (bio_buf (ww_file w)) (ww_datalength w)
      else bio_buf (ww_file w) = [] \<and> ww_datawritten w = 0 \<and> ww_nframes w = 0)"

subsection \<open>Lemmas\<close>

lemma header_sizes_canonical: "header_sizes (canonical_header nch sw rate dl @ d) dl"
  by (simp add: header_sizes_def canonical_header_def)

lemma header_sizes_append:
  "44 \<le> length buf \<Longrightarrow> header_sizes (buf @ d) dl = header_sizes buf dl"
  by (simp add: header_sizes_def)

lemma ww_inv_setters [simp]:
  "ww_inv (w\<lparr>ww_nchannels := n\<rparr>) = ww_inv w"
  "ww_inv (w\<lparr>ww_sampwidth := n\<rparr>) = ww_inv w"
  "ww_inv (w\<lparr>ww_framerate := n\<rparr>) = ww_inv w"
  by (simp_all add: ww_inv_def)

lemma ww_inv_open: "ww_inv (wave_open_w bio_new)"
  by (simp add: ww_inv_def wave_open_w_def bio_new_def bio_at_end_def)


lemma length_ascii_RIFF: "length (ascii ''RIFF'') = 4"
  by (simp add: ascii_def)

lemma bio_empty_pos: "bio_buf f = [] \<Longrightarrow> bio_at_end f \<Longrightarrow> bio_pos f = 0"
  by (simp add: bio_at_end_def)

lemma write_header_empty:
  assumes "bio_buf (ww_file w) = []" "bio_at_end (ww_file w)" "ww_nframes w = 0"
    and "wave_write_header w n = Inr w'"
  shows "bio_buf (ww_file w') =
           canonical_header (ww_nchannels w) (ww_sampwidth w) (ww_framerate w) (ww_datalength w') \<and>
         bio_at_end (ww_file w') \<and> ww_form_length_pos w' = 4 \<and> ww_data_length_pos w' = 40 \<and>
         ww_headerwritten w' \<and> ww_datawritten w' = ww_datawritten w"
proof -
  define dl where "dl = n div (ww_nchannels w * ww_sampwidth w) * ww_nchannels w * ww_sampwidth w"
  have fits: "header_fits (ww_nchannels w) (ww_sampwidth w) (ww_framerate w) dl"
    using assms(3,4)
    by (auto simp: wave_write_header_def Let_def struct_pack_header dl_def
        split: if_splits sum.splits simp del: struct_pack.simps)
  then have dlpack: "struct_pack [U32 (int dl)] = Inr (le_bytes 4 (int dl))"
    by (simp add: header_fits_def)
  have pos: "bio_pos (ww_file w) = 0" using assms(1,2) by (rule bio_empty_pos)
  have w': "w' = w\<lparr>ww_file := bio_write (bio_write (bio_write (ww_file w) (ascii ''RIFF''))
                     (drop 4 (take 40 (canonical_header (ww_nchannels w) (ww_sampwidth w) (ww_framerate w) dl))))
                     (le_bytes 4 (int dl)),
                  ww_nframes := n div (ww_nchannels w * ww_sampwidth w), ww_datalength := dl,
                  ww_form_length_pos := 4, ww_data_length_pos := 40, ww_headerwritten := True\<rparr>"
    using assms(3,4) fits dlpack pos
    by (simp add: wave_write_header_def Let_def struct_pack_header dl_def[symmetric] length_ascii_RIFF
        del: struct_pack.simps length_ascii)
  show ?thesis
    using assms(1,2) canonical_header_recompose [of "ww_nchannels w" "ww_sampwidth w" "ww_framerate w" dl]
    by (simp add: w' bio_write_at_end)
qed


lemma bio_write_seek_inside:
  assumes "p + length d \<le> length (bio_buf f)"
  shows "bio_buf (bio_write (bio_seek f p) d) = take p (bio_buf f) @ d @ drop (p + length d) (bio_buf f)"
    and "bio_pos (bio_write (bio_seek f p) d) = p + length d"
  using assms by (simp_all add: bio_write_def bio_seek_def Let_def)

lemma writeframesraw_inv:
  assumes inv: "ww_inv w" and step: "wave_writeframesraw w d = Inr w'"
  shows "ww_inv w' \<and> ww_headerwritten w' \<and> ww_datawritten w' = ww_datawritten w + length d \<and>
         (ww_headerwritten w \<longrightarrow> ww_datalength w' = ww_datalength w)"
proof (cases "ww_headerwritten w")
  case True
  then have w': "w' = w\<lparr>ww_file := bio_write (ww_file w) d,
                   ww_datawritten := ww_datawritten w + length d,
                   ww_nframeswritten := ww_nframeswritten w
                      + length d div (ww_sampwidth w * ww_nchannels w)\<rparr>"
    using step by (simp add: wave_writeframesraw_def wave_ensure_header_written_def)
  show ?thesis
    using inv True bio_write_at_end [of "ww_file w" d]
    by (simp add: w' ww_inv_def header_sizes_append)
next
  case False
  obtain w1 where hdr: "wave_write_header w (length d) = Inr w1"
    and w': "w' = w1\<lparr>ww_file := bio_write (ww_file w1) d,
                   ww_datawritten := ww_datawritten w1 + length d,
                   ww_nframeswritten := ww_nframeswritten w1
                      + length d div (ww_sampwidth w1 * ww_nchannels w1)\<rparr>"
    using step False
    by (auto simp: wave_writeframesraw_def wave_ensure_header_written_def sbind_eq_Inr
        split: if_splits)
  have empty: "bio_buf (ww_file w) = []" "bio_at_end (ww_file w)" "ww_nframes w = 0"
      "ww_datawritten w = 0"
    using inv False by (simp_all add: ww_inv_def)
  note h = write_header_empty [OF empty(1-3) hdr]
  show ?thesis
    using h empty(4) bio_write_at_end [of "ww_file w1" d] False
    by (simp add: w' ww_inv_def header_sizes_canonical)
qed

lemma patchheader_inv:
  assumes inv: "ww_inv w" and hw: "ww_headerwritten w" and step: "wave_patchheader w = Inr w'"
  shows "ww_inv w' \<and> ww_headerwritten w' \<and> ww_datalength w' = ww_datawritten w \<and>
         ww_datawritten w' = ww_datawritten w"
proof (cases "ww_datawritten w = ww_datalength w")
  case True
  then show ?thesis using inv hw step by (simp add: wave_patchheader_def)
next
  case False
  define f where "f = ww_file w"
  define dw where "dw = ww_datawritten w"
  have len: "length (bio_buf f) = 44 + dw" and pos: "bio_pos f = 44 + dw"
    and fp: "ww_form_length_pos w = 4" "ww_data_length_pos w = 40"
    and hs: "header_sizes (bio_buf f) (ww_datalength w)"
    using inv hw by (simp_all add: ww_inv_def f_def dw_def bio_at_end_def)
  have fits: "36 + dw \<le> 4294967295"
    using step False by (auto simp: wave_patchheader_def Let_def dw_def split: if_splits)
  define f1 where "f1 = bio_write (bio_seek f 4) (le_bytes 4 (int (36 + dw)))"
  define f2 where "f2 = bio_write (bio_seek f1 40) (le_bytes 4 (int dw))"
  have w': "w' = w\<lparr>ww_file := bio_seek f2 (44 + dw), ww_datalength := dw\<rparr>"
    using step False fits pos
    by (simp add: wave_patchheader_def Let_def fp f1_def f2_def f_def[symmetric] dw_def[symmetric])
  have b1: "bio_buf f1 = take 4 (bio_buf f) @ le_bytes 4 (int (36 + dw)) @ drop 8 (bio_buf f)"
    and l1: "length (bio_buf f1) = 44 + dw"
    using len by (simp_all add: f1_def bio_write_seek_inside)
  have b2: "bio_buf f2 = take 40 (bio_buf f1) @ le_bytes 4 (int dw) @ drop 44 (bio_buf f1)"
    using l1 by (simp add: f2_def bio_write_seek_inside)
  have "header_sizes (bio_buf f2) dw"
    using hs len by (simp add: b2 b1 header_sizes_def)
  moreover have "length (bio_buf f2) = 44 + dw" using l1 by (simp add: b2)
  ultimately show ?thesis
    using inv hw by (simp add: w' ww_inv_def bio_at_end_def dw_def)
qed


lemma finish_inv:
  assumes "ww_inv w" "ww_headerwritten w"
    and "(if ww_datalength w \<noteq> ww_datawritten w then wave_patchheader w else Inr w) = Inr w'"
  shows "ww_inv w' \<and> ww_headerwritten w' \<and> ww_datalength w' = ww_datawritten w \<and>
         ww_datawritten w' = ww_datawritten w"
  using assms patchheader_inv [OF assms(1,2)] by (auto split: if_splits)

lemma ensure_inv:
  assumes "ww_inv w" "wave_ensure_header_written w n = Inr w'"
  shows "ww_inv w' \<and> ww_headerwritten w' \<and> ww_datawritten w' = ww_datawritten w"
proof (cases "ww_headerwritten w")
  case True
  then show ?thesis using assms by (simp add: wave_ensure_header_written_def)
next
  case False
  then have hdr: "wave_write_header w n = Inr w'"
    using assms(2) by (simp add: wave_ensure_header_written_def split: if_splits)
  have empty: "bio_buf (ww_file w) = []" "bio_at_end (ww_file w)" "ww_nframes w = 0"
      "ww_datawritten w = 0"
    using assms(1) False by (simp_all add: ww_inv_def)
  show ?thesis
    using write_header_empty [OF empty(1-3) hdr] empty(4)
      header_sizes_canonical [of _ _ _ _ "[]"]
    by (simp add: ww_inv_def)
qed

lemma writeframes_inv:
  assumes "ww_inv w" "wave_writeframes w d = Inr w'"
  shows "ww_inv w' \<and> ww_headerwritten w' \<and> ww_datawritten w' = ww_datawritten w + length d"
proof -
  obtain w1 where raw: "wave_writeframesraw w d = Inr w1"
    and fin: "(if ww_datalength w1 \<noteq> ww_datawritten w1 then wave_patchheader w1 else Inr w1) = Inr w'"
    using assms(2) by (auto simp: wave_writeframes_def sbind_eq_Inr)
  note r = writeframesraw_inv [OF assms(1) raw]
  have "ww_inv w1" "ww_headerwritten w1" using r by simp_all
  note f = finish_inv [OF this fin]
  show ?thesis using r f by simp
qed

lemma ww_step_inv:
  assumes "ww_inv w" "ww_step w c = Inr w'"
  shows "ww_inv w'"
proof (cases c)
  case (WriteFramesRaw d)
  then show ?thesis using assms writeframesraw_inv by simp
next
  case (WriteFrames d)
  then show ?thesis using assms writeframes_inv by simp
qed (use assms in \<open>auto simp: wave_setnchannels_def wave_setsampwidth_def wave_setframerate_def
                       split: if_splits\<close>)

lemma ww_reach_inv: "ww_reach w \<Longrightarrow> ww_inv w"
  by (induction rule: ww_reach.induct) (auto intro: ww_inv_open ww_step_inv)

lemma ww_run_reach: "ww_reach w \<Longrightarrow> ww_run w cs = Inr w' \<Longrightarrow> ww_reach w'"
  by (induction cs arbitrary: w) (auto simp: sbind_eq_Inr intro: ww_reach.called)

lemma close_inv:
  assumes "ww_inv w" "wave_close w = Inr f"
  shows "bio_at_end f \<and> length (bio_buf f) = 44 + ww_datawritten w \<and>
         header_sizes (bio_buf f) (ww_datawritten w)"
proof -
  obtain w1 w2 where e: "wave_ensure_header_written w 0 = Inr w1"
    and p: "(if ww_datalength w1 \<noteq> ww_datawritten w1 then wave_patchheader w1 else Inr w1) = Inr w2"
    and f: "f = ww_file w2"
    using assms(2) by (auto simp: wave_close_def sbind_eq_Inr)
  note i1 = ensure_inv [OF assms(1) e]
  note i2 = finish_inv [OF conjunct1 [OF i1] conjunct1 [OF conjunct2 [OF i1]] p]
  show ?thesis using i1 i2 by (auto simp: f ww_inv_def)
qed

lemma patchheader_fits:
  assumes "36 + ww_datawritten w \<le> 4294967295"
  shows "\<exists>w'. wave_patchheader w = Inr w'"
  using assms by (simp add: wave_patchheader_def Let_def)

lemma writeframes_progress:
  assumes inv: "ww_inv w" and set: "ww_nchannels w \<noteq> 0" "ww_sampwidth w \<noteq> 0" "ww_framerate w \<noteq> 0"
    and dvd: "ww_nchannels w * ww_sampwidth w dvd length d"
    and fits: "header_fits (ww_nchannels w) (ww_sampwidth w) (ww_framerate w) (ww_datawritten w + length d)"
  shows "\<exists>w'. wave_writeframes w d = Inr w' \<and> ww_datawritten w' = ww_datawritten w + length d"
proof (cases "ww_headerwritten w")
  case True
  define w1 where "w1 = w\<lparr>ww_file := bio_write (ww_file w) d,
                   ww_datawritten := ww_datawritten w + length d,
                   ww_nframeswritten := ww_nframeswritten w
                      + length d div (ww_sampwidth w * ww_nchannels w)\<rparr>"
  have raw: "wave_writeframesraw w d = Inr w1"
    using True by (simp add: wave_writeframesraw_def wave_ensure_header_written_def w1_def)
  obtain w2 where "wave_patchheader w1 = Inr w2"
    using patchheader_fits [of w1] fits by (auto simp: w1_def header_fits_def)
  moreover have "ww_datawritten w2 = ww_datawritten w1" if "wave_patchheader w1 = Inr w2" for w2
    using that by (auto simp: wave_patchheader_def Let_def split: if_splits sum.splits)
  ultimately show ?thesis
    by (cases "ww_datalength w1 = ww_datawritten w1")
       (auto simp: wave_writeframes_def raw w1_def)
next
  case False
  have st: "bio_at_end (ww_file w)" "ww_nframes w = 0" "ww_datawritten w = 0"
    using inv False by (simp_all add: ww_inv_def)
  have fits': "header_fits (ww_nchannels w) (ww_sampwidth w) (ww_framerate w) (length d)"
    using fits st(3) by simp
  obtain w' where "wave_writeframes w d = Inr w'" "ww_datawritten w' = length d"
    using wave_writeframes_fresh [OF st(1,2) False st(3) set fits' dvd] by auto
  then show ?thesis using st(3) by simp
qed

lemma write_header_params:
  "wave_write_header w n = Inr w' \<Longrightarrow>
     ww_nchannels w' = ww_nchannels w \<and> ww_sampwidth w' = ww_sampwidth w \<and>
     ww_framerate w' = ww_framerate w \<and> ww_datawritten w' = ww_datawritten w"
  by (auto simp: wave_write_header_def Let_def split: sum.splits simp del: struct_pack.simps)

lemma patchheader_params:
  "wave_patchheader w = Inr w' \<Longrightarrow>
     ww_nchannels w' = ww_nchannels w \<and> ww_sampwidth w' = ww_sampwidth w \<and>
     ww_framerate w' = ww_framerate w \<and> ww_datawritten w' = ww_datawritten w"
  by (auto simp: wave_patchheader_def Let_def split: if_splits sum.splits simp del: struct_pack.simps)

lemma writeframesraw_params:
  "wave_writeframesraw w d = Inr w' \<Longrightarrow>
     ww_nchannels w' = ww_nchannels w \<and> ww_sampwidth w' = ww_sampwidth w \<and>
     ww_framerate w' = ww_framerate w \<and> ww_datawritten w' = ww_datawritten w + length d"
  by (auto simp: wave_writeframesraw_def wave_ensure_header_written_def sbind_eq_Inr
      dest!: write_header_params split: if_splits)

lemma ww_step_params:
  assumes "ww_step w c = Inr w'" "ww_datawritten w \<noteq> 0"
  shows "ww_nchannels w' = ww_nchannels w \<and> ww_sampwidth w' = ww_sampwidth w \<and>
         ww_framerate w' = ww_framerate w \<and> ww_datawritten w' \<noteq> 0"
proof (cases c)
  case (WriteFrames d)
  then obtain w1 where raw: "wave_writeframesraw w d = Inr w1"
    and fin: "(if ww_datalength w1 \<noteq> ww_datawritten w1 then wave_patchheader w1 else Inr w1) = Inr w'"
    using assms(1) by (auto simp: wave_writeframes_def sbind_eq_Inr)
  note r = writeframesraw_params [OF raw]
  show ?thesis
  proof (cases "ww_datalength w1 = ww_datawritten w1")
    case True
    then show ?thesis using fin r assms(2) by simp
  next
    case False
    then have "wave_patchheader w1 = Inr w'" using fin by simp
    then show ?thesis using patchheader_params [of w1 w'] r assms(2) by simp
  qed
qed (use assms in \<open>auto simp: wave_setnchannels_def wave_setsampwidth_def wave_setframerate_def
                       dest!: writeframesraw_params\<close>)

subsection \<open>Properties\<close>

text \<open>
  C22. Whatever sequence of calls a caller makes on a writer opened on an empty
  \<open>BytesIO\<close>, as long as none raises, the stream holds either nothing (no header yet) or
  a 44-byte header followed by exactly the data written, its size fields at offsets 4
  and 40, and the stream positioned at its end.
\<close>

theorem ww_run_inv:
  assumes "ww_run (wave_open_w bio_new) calls = Inr w"
  shows "ww_inv w"
  using ww_reach_inv [OF ww_run_reach [OF ww_reach.opened assms]] .

lemma ww_run_inv_witness:
  "ww_inv ((wave_open_w bio_new)\<lparr>ww_nchannels := 1, ww_sampwidth := 2, ww_framerate := 8000\<rparr>)"
  using ww_run_inv [of "[SetNChannels 1, SetSampWidth 2, SetFrameRate 8000]"
      "(wave_open_w bio_new)\<lparr>ww_nchannels := 1, ww_sampwidth := 2, ww_framerate := 8000\<rparr>"]
  by (simp add: wave_setnchannels_def wave_setsampwidth_def wave_setframerate_def wave_open_w_def)

text \<open>
  C23. After any sequence of successful calls, a successful \<open>close()\<close> leaves a file
  whose RIFF size field is 36 plus, and whose data size field is exactly, the number of
  bytes written: \<open>_patchheader\<close> repairs the sizes that \<open>_write_header\<close> guessed.
\<close>

theorem ww_close_sizes:
  assumes "ww_run (wave_open_w bio_new) calls = Inr w" "wave_close w = Inr f"
  shows "length (bio_buf f) = 44 + ww_datawritten w \<and> header_sizes (bio_buf f) (ww_datawritten w)"
  using close_inv [OF ww_reach_inv [OF ww_run_reach [OF ww_reach.opened assms(1)]] assms(2)]
  by simp

lemma ww_close_sizes_witness:
  "length (bio_buf (projr (wave_close (projr (ww_run (wave_open_w bio_new)
      [SetNChannels 1, SetSampWidth 2, SetFrameRate 8000, WriteFrames [1, 2, 3]]))))) =
     44 + ww_datawritten (projr (ww_run (wave_open_w bio_new)
      [SetNChannels 1, SetSampWidth 2, SetFrameRate 8000, WriteFrames [1, 2, 3]])) \<and>
   header_sizes (bio_buf (projr (wave_close (projr (ww_run (wave_open_w bio_new)
      [SetNChannels 1, SetSampWidth 2, SetFrameRate 8000, WriteFrames [1, 2, 3]])))))
     (ww_datawritten (projr (ww_run (wave_open_w bio_new)
      [SetNChannels 1, SetSampWidth 2, SetFrameRate 8000, WriteFrames [1, 2, 3]])))"
  using ww_close_sizes [of "[SetNChannels 1, SetSampWidth 2, SetFrameRate 8000, WriteFrames [1, 2, 3]]"
      "projr (ww_run (wave_open_w bio_new)
      [SetNChannels 1, SetSampWidth 2, SetFrameRate 8000, WriteFrames [1, 2, 3]])"
      "projr (wave_close (projr (ww_run (wave_open_w bio_new)
      [SetNChannels 1, SetSampWidth 2, SetFrameRate 8000, WriteFrames [1, 2, 3]])))"]
  by (simp add: wave_setnchannels_def wave_setsampwidth_def wave_setframerate_def wave_open_w_def
      wave_writeframes_def wave_writeframesraw_def wave_ensure_header_written_def wave_write_header_def
      wave_patchheader_def wave_close_def wave_header_items_def bio_write_def bio_seek_def bio_new_def
      Let_def ascii_def)


text \<open>
  C27. The writer never gets stuck: from any reachable writer whose channels, sample
  width and rate are set, \<open>writeframes\<close> of whole frames succeeds whenever the sizes
  still fit the 32-bit header, and counts the bytes.
\<close>

theorem ww_writeframes_progress:
  assumes "ww_run (wave_open_w bio_new) calls = Inr w"
    and "ww_nchannels w \<noteq> 0" "ww_sampwidth w \<noteq> 0" "ww_framerate w \<noteq> 0"
    and "ww_nchannels w * ww_sampwidth w dvd length d"
    and "header_fits (ww_nchannels w) (ww_sampwidth w) (ww_framerate w) (ww_datawritten w + length d)"
  shows "\<exists>w'. wave_writeframes w d = Inr w' \<and> ww_datawritten w' = ww_datawritten w + length d"
  using writeframes_progress [OF ww_reach_inv [OF ww_run_reach [OF ww_reach.opened assms(1)]]
      assms(2-6)] .

lemma ww_writeframes_progress_witness:
  "\<exists>w'. wave_writeframes ((wave_open_w bio_new)\<lparr>ww_nchannels := 1, ww_sampwidth := 2, ww_framerate := 8000\<rparr>)
          [1, 0, 2, 0] = Inr w' \<and>
        ww_datawritten w' =
          ww_datawritten ((wave_open_w bio_new)\<lparr>ww_nchannels := 1, ww_sampwidth := 2, ww_framerate := 8000\<rparr>)
          + length [1::byte, 0, 2, 0]"
  using ww_writeframes_progress [of "[SetNChannels 1, SetSampWidth 2, SetFrameRate 8000]"
      "(wave_open_w bio_new)\<lparr>ww_nchannels := 1, ww_sampwidth := 2, ww_framerate := 8000\<rparr>"
      "[1, 0, 2, 0]"]
  by (simp add: wave_setnchannels_def wave_setsampwidth_def wave_setframerate_def wave_open_w_def
      header_fits_def)


text \<open>
  C20. Once any data has been written, the writer's parameters are frozen: after any
  further sequence of successful calls, the channels, sample width and rate are those of
  the first write (every setter raises "cannot change parameters after starting to
  write"). The guard tests \<open>_datawritten\<close>, not \<open>_headerwritten\<close>: after
  \<open>writeframes(b'')\<close> the header is written but the parameters can still change.
\<close>

theorem ww_params_frozen:
  assumes "ww_run w calls = Inr w'" "ww_datawritten w \<noteq> 0"
  shows "ww_nchannels w' = ww_nchannels w \<and> ww_sampwidth w' = ww_sampwidth w \<and>
         ww_framerate w' = ww_framerate w"
  using assms
proof (induction calls arbitrary: w)
  case Nil
  then show ?case by simp
next
  case (Cons c cs)
  then obtain w1 where s: "ww_step w c = Inr w1" and r: "ww_run w1 cs = Inr w'"
    by (auto simp: sbind_eq_Inr)
  note p = ww_step_params [OF s Cons.prems(2)]
  show ?case using Cons.IH [OF r] p by simp
qed

lemma ww_params_frozen_witness:
  "ww_nchannels (projr (ww_run ((wave_open_w bio_new)\<lparr>ww_nchannels := 1, ww_sampwidth := 2,
        ww_framerate := 8000, ww_datawritten := 2, ww_headerwritten := True\<rparr>)
        [WriteFramesRaw [1, 0]])) = 1 \<and>
   ww_sampwidth (projr (ww_run ((wave_open_w bio_new)\<lparr>ww_nchannels := 1, ww_sampwidth := 2,
        ww_framerate := 8000, ww_datawritten := 2, ww_headerwritten := True\<rparr>)
        [WriteFramesRaw [1, 0]])) = 2 \<and>
   ww_framerate (projr (ww_run ((wave_open_w bio_new)\<lparr>ww_nchannels := 1, ww_sampwidth := 2,
        ww_framerate := 8000, ww_datawritten := 2, ww_headerwritten := True\<rparr>)
        [WriteFramesRaw [1, 0]])) = 8000"
  using ww_params_frozen [of "(wave_open_w bio_new)\<lparr>ww_nchannels := 1, ww_sampwidth := 2,
        ww_framerate := 8000, ww_datawritten := 2, ww_headerwritten := True\<rparr>"
      "[WriteFramesRaw [1, 0]]"
      "projr (ww_run ((wave_open_w bio_new)\<lparr>ww_nchannels := 1, ww_sampwidth := 2,
        ww_framerate := 8000, ww_datawritten := 2, ww_headerwritten := True\<rparr>)
        [WriteFramesRaw [1, 0]])"]
  by (simp add: wave_writeframesraw_def wave_ensure_header_written_def wave_open_w_def)

end
