(* ===== verification/WaveStream.thy ===== *)
theory WaveStream
  imports WaveWriteMachine
begin

text \<open>
  What \<open>wave.Wave_write\<close> leaves in the stream when frames arrive in several
  \<open>writeframes\<close> calls. \<open>ww_holds w D\<close> says that the stream of \<open>w\<close> holds the
  canonical header with the writer's parameters and its current data length, followed by
  exactly the bytes \<open>D\<close> written so far (nothing at all before the header is written).
  Every \<open>writeframes\<close> keeps this, \<open>_patchheader\<close> brings the data length up to date,
  and \<open>close\<close> leaves the header of the whole concatenation.
\<close>

definition ww_holds :: "wave_writer \<Rightarrow> byte list \<Rightarrow> bool" where
  "ww_holds w D \<longleftrightarrow>
     bio_at_end (ww_file w) \<and> ww_datawritten w = length D \<and>
     (if ww_headerwritten w
      then ww_form_length_pos w = 4 \<and> ww_data_length_pos w = 40 \<and>
           bio_buf (ww_file w) =
             canonical_header (ww_nchannels w) (ww_sampwidth w) (ww_framerate w) (ww_datalength w) @ D
      else D = [] \<and> bio_buf (ww_file w) = [] \<and> ww_nframes w = 0)"

definition same_params :: "wave_writer \<Rightarrow> wave_writer \<Rightarrow> bool" where
  "same_params w w' \<longleftrightarrow>
     ww_nchannels w' = ww_nchannels w \<and> ww_sampwidth w' = ww_sampwidth w \<and>
     ww_framerate w' = ww_framerate w"

subsection \<open>Lemmas\<close>

lemma header_fits_mono:
  "header_fits nch sw rate m \<Longrightarrow> n \<le> m \<Longrightarrow> header_fits nch sw rate n"
  by (simp add: header_fits_def)

lemma canonical_header_patch:
  "take 40 (take 4 (canonical_header nch sw rate l @ D) @ le_bytes 4 (int (36 + m)) @
            drop 8 (canonical_header nch sw rate l @ D)) @ le_bytes 4 (int m) @
   drop 44 (take 4 (canonical_header nch sw rate l @ D) @ le_bytes 4 (int (36 + m)) @
            drop 8 (canonical_header nch sw rate l @ D)) =
   canonical_header nch sw rate m @ D"
  by (simp add: canonical_header_def)

lemma holds_patch:
  assumes h: "ww_holds w D" and hw: "ww_headerwritten w" and fits: "36 + length D \<le> 4294967295"
  shows "\<exists>w'. wave_patchheader w = Inr w' \<and> ww_holds w' D \<and> ww_headerwritten w' \<and>
           ww_datalength w' = length D \<and> same_params w w'"
proof (cases "ww_datawritten w = ww_datalength w")
  case True
  then show ?thesis using h hw by (simp add: wave_patchheader_def ww_holds_def same_params_def)
next
  case False
  define f where "f = ww_file w"
  define B where "B = canonical_header (ww_nchannels w) (ww_sampwidth w) (ww_framerate w) (ww_datalength w) @ D"
  have buf: "bio_buf f = B" and pos: "bio_pos f = 44 + length D"
    and fp: "ww_form_length_pos w = 4" "ww_data_length_pos w = 40" and dw: "ww_datawritten w = length D"
    using h hw by (simp_all add: ww_holds_def f_def B_def bio_at_end_def)
  define f1 where "f1 = bio_write (bio_seek f 4) (le_bytes 4 (int (36 + length D)))"
  define f2 where "f2 = bio_write (bio_seek f1 40) (le_bytes 4 (int (length D)))"
  have lenB: "length B = 44 + length D" by (simp add: B_def)
  have b1: "bio_buf f1 = take 4 B @ le_bytes 4 (int (36 + length D)) @ drop 8 B"
    and l1: "length (bio_buf f1) = 44 + length D"
    using lenB buf by (simp_all add: f1_def bio_write_seek_inside)
  have b2: "bio_buf f2 = take 40 (bio_buf f1) @ le_bytes 4 (int (length D)) @ drop 44 (bio_buf f1)"
    using l1 by (simp add: f2_def bio_write_seek_inside)
  have w': "wave_patchheader w = Inr (w\<lparr>ww_file := bio_seek f2 (44 + length D), ww_datalength := length D\<rparr>)"
    using False fits pos dw
    by (simp add: wave_patchheader_def Let_def fp f1_def f2_def f_def[symmetric])
  have "bio_buf f2 = canonical_header (ww_nchannels w) (ww_sampwidth w) (ww_framerate w) (length D) @ D"
    unfolding b2 b1 B_def by (rule canonical_header_patch)
  moreover have "length (bio_buf f2) = 44 + length D" using l1 by (simp add: b2)
  ultimately show ?thesis
    using w' hw fp dw by (simp add: ww_holds_def same_params_def bio_at_end_def)
qed

lemma write_header_exists:
  assumes "ww_nframes w = 0" "header_fits (ww_nchannels w) (ww_sampwidth w) (ww_framerate w) n"
  shows "\<exists>w'. wave_write_header w n = Inr w'"
proof -
  define dl where "dl = n div (ww_nchannels w * ww_sampwidth w) * ww_nchannels w * ww_sampwidth w"
  have "dl \<le> n" unfolding dl_def by (metis div_times_less_eq_dividend mult.assoc)
  then have fits: "header_fits (ww_nchannels w) (ww_sampwidth w) (ww_framerate w) dl"
    using assms(2) by (rule header_fits_mono [rotated])
  then have "struct_pack [U32 (int dl)] = Inr (le_bytes 4 (int dl))"
    by (simp add: header_fits_def)
  then show ?thesis
    using assms(1) fits
    by (simp add: wave_write_header_def Let_def struct_pack_header dl_def[symmetric]
        del: struct_pack.simps)
qed

lemma holds_ensure:
  assumes h: "ww_holds w D" and set: "ww_nchannels w \<noteq> 0" "ww_sampwidth w \<noteq> 0" "ww_framerate w \<noteq> 0"
    and fits: "header_fits (ww_nchannels w) (ww_sampwidth w) (ww_framerate w) n"
  shows "\<exists>w1. wave_ensure_header_written w n = Inr w1 \<and> ww_holds w1 D \<and> ww_headerwritten w1 \<and>
           same_params w w1"
proof (cases "ww_headerwritten w")
  case True
  then show ?thesis using h by (simp add: wave_ensure_header_written_def same_params_def)
next
  case False
  have e: "D = []" "bio_buf (ww_file w) = []" "ww_nframes w = 0" "bio_at_end (ww_file w)"
      "ww_datawritten w = 0"
    using h False by (simp_all add: ww_holds_def)
  obtain w1 where hdr: "wave_write_header w n = Inr w1"
    using write_header_exists [OF e(3) fits] by blast
  note hd = write_header_empty [OF e(2,4,3) hdr]
  note p = write_header_params [OF hdr]
  have "wave_ensure_header_written w n = Inr w1"
    using False set hdr by (simp add: wave_ensure_header_written_def)
  then show ?thesis using hd p e by (simp add: ww_holds_def same_params_def)
qed

lemma holds_finish:
  assumes h: "ww_holds w D" and hw: "ww_headerwritten w" and fits: "36 + length D \<le> 4294967295"
  shows "\<exists>w'. (if ww_datalength w \<noteq> ww_datawritten w then wave_patchheader w else Inr w) = Inr w' \<and>
           ww_holds w' D \<and> ww_headerwritten w' \<and> ww_datalength w' = length D \<and> same_params w w'"
proof (cases "ww_datalength w = ww_datawritten w")
  case True
  then show ?thesis using h hw by (simp add: ww_holds_def same_params_def)
next
  case False
  then show ?thesis using holds_patch [OF h hw fits] by simp
qed

lemma holds_writeframes:
  assumes h: "ww_holds w D" and set: "ww_nchannels w \<noteq> 0" "ww_sampwidth w \<noteq> 0" "ww_framerate w \<noteq> 0"
    and fits: "header_fits (ww_nchannels w) (ww_sampwidth w) (ww_framerate w) (length D + length d)"
  shows "\<exists>w'. wave_writeframes w d = Inr w' \<and> ww_holds w' (D @ d) \<and> same_params w w'"
proof -
  have "header_fits (ww_nchannels w) (ww_sampwidth w) (ww_framerate w) (length d)"
    using fits by (rule header_fits_mono) simp
  then obtain w1 where e: "wave_ensure_header_written w (length d) = Inr w1"
    and h1: "ww_holds w1 D" "ww_headerwritten w1" "same_params w w1"
    using holds_ensure [OF h set] by blast
  define w2 where "w2 = w1\<lparr>ww_file := bio_write (ww_file w1) d,
                   ww_datawritten := ww_datawritten w1 + length d,
                   ww_nframeswritten := ww_nframeswritten w1
                      + length d div (ww_sampwidth w1 * ww_nchannels w1)\<rparr>"
  have raw: "wave_writeframesraw w d = Inr w2"
    using e by (simp add: wave_writeframesraw_def w2_def)
  have h2: "ww_holds w2 (D @ d)" "ww_headerwritten w2"
    using h1 bio_write_at_end [of "ww_file w1" d] by (simp_all add: ww_holds_def w2_def)
  have "36 + length (D @ d) \<le> 4294967295" using fits by (simp add: header_fits_def)
  then obtain w3 where
    "(if ww_datalength w2 \<noteq> ww_datawritten w2 then wave_patchheader w2 else Inr w2) = Inr w3"
    "ww_holds w3 (D @ d)" "same_params w2 w3"
    using holds_finish [OF h2] by blast
  then show ?thesis
    using raw h1(3) by (auto simp: wave_writeframes_def same_params_def w2_def)
qed

lemma holds_run:
  assumes "ww_holds w D" "ww_nchannels w \<noteq> 0" "ww_sampwidth w \<noteq> 0" "ww_framerate w \<noteq> 0"
    and "header_fits (ww_nchannels w) (ww_sampwidth w) (ww_framerate w) (length D + length (concat ds))"
  shows "\<exists>w'. ww_run w (map WriteFrames ds) = Inr w' \<and> ww_holds w' (D @ concat ds) \<and> same_params w w'"
  using assms
proof (induction ds arbitrary: w D)
  case Nil
  then show ?case by (simp add: same_params_def)
next
  case (Cons d ds)
  have "header_fits (ww_nchannels w) (ww_sampwidth w) (ww_framerate w) (length D + length d)"
    using Cons.prems(5) by (rule header_fits_mono) simp
  then obtain w1 where s: "wave_writeframes w d = Inr w1" and h1: "ww_holds w1 (D @ d)"
    and p1: "same_params w w1"
    using holds_writeframes [OF Cons.prems(1-4)] by blast
  have set1: "ww_nchannels w1 \<noteq> 0" "ww_sampwidth w1 \<noteq> 0" "ww_framerate w1 \<noteq> 0"
    using Cons.prems(2-4) p1 by (simp_all add: same_params_def)
  have fits1: "header_fits (ww_nchannels w1) (ww_sampwidth w1) (ww_framerate w1)
      (length (D @ d) + length (concat ds))"
    using Cons.prems(5) p1 by (simp add: same_params_def add.assoc)
  obtain w' where "ww_run w1 (map WriteFrames ds) = Inr w'" "ww_holds w' ((D @ d) @ concat ds)"
      "same_params w1 w'"
    using Cons.IH [OF h1 set1 fits1] by blast
  then show ?case using s p1 by (auto simp: same_params_def)
qed

lemma holds_close:
  assumes h: "ww_holds w D" and set: "ww_nchannels w \<noteq> 0" "ww_sampwidth w \<noteq> 0" "ww_framerate w \<noteq> 0"
    and fits: "header_fits (ww_nchannels w) (ww_sampwidth w) (ww_framerate w) (length D)"
  shows "\<exists>f. wave_close w = Inr f \<and>
           bio_buf f = canonical_header (ww_nchannels w) (ww_sampwidth w) (ww_framerate w) (length D) @ D"
proof -
  have "header_fits (ww_nchannels w) (ww_sampwidth w) (ww_framerate w) 0"
    using fits by (rule header_fits_mono) simp
  then obtain w1 where e: "wave_ensure_header_written w 0 = Inr w1"
    and h1: "ww_holds w1 D" "ww_headerwritten w1" "same_params w w1"
    using holds_ensure [OF h set] by blast
  have "36 + length D \<le> 4294967295" using fits by (simp add: header_fits_def)
  then obtain w2 where
    f: "(if ww_datalength w1 \<noteq> ww_datawritten w1 then wave_patchheader w1 else Inr w1) = Inr w2"
    and h2: "ww_holds w2 D" "ww_headerwritten w2" "ww_datalength w2 = length D" "same_params w1 w2"
    using holds_finish [OF h1(1,2)] by blast
  have "wave_close w = Inr (ww_file w2)"
    using e f by (simp add: wave_close_def)
  then show ?thesis using h1(3) h2 by (simp add: ww_holds_def same_params_def)
qed

lemma configured_run:
  assumes "1 \<le> n" "1 \<le> s" "s \<le> 4" "1 \<le> r"
  shows "ww_run (wave_open_w bio_new) (SetNChannels n # SetSampWidth s # SetFrameRate r # cs) =
           ww_run ((wave_open_w bio_new)\<lparr>ww_nchannels := nat n, ww_sampwidth := nat s,
                     ww_framerate := nat r\<rparr>) cs"
  using assms
  by (simp add: wave_setnchannels_def wave_setsampwidth_def wave_setframerate_def wave_open_w_def)

lemma holds_configured:
  "ww_holds ((wave_open_w bio_new)\<lparr>ww_nchannels := n, ww_sampwidth := s, ww_framerate := r\<rparr>) []"
  by (simp add: ww_holds_def wave_open_w_def)

subsection \<open>Properties\<close>

text \<open>
  C34. However the frames are split over \<open>writeframes\<close> calls, a writer opened on an
  empty \<open>BytesIO\<close> and configured with valid parameters accepts every chunk and
  \<open>close()\<close> succeeds, leaving exactly the canonical 44-byte header for the total length
  followed by the concatenation of the chunks, whenever that total fits the 32-bit header.
  Between calls, \<open>_patchheader\<close> must seek back to where the data ends, or the next chunk
  would overwrite the first.
\<close>

theorem ww_writeframes_concat:
  assumes "1 \<le> n" "1 \<le> s" "s \<le> 4" "1 \<le> r"
    and "header_fits (nat n) (nat s) (nat r) (length (concat ds))"
  shows "\<exists>f. sbind (ww_run (wave_open_w bio_new)
                       (SetNChannels n # SetSampWidth s # SetFrameRate r # map WriteFrames ds))
                wave_close = Inr f \<and>
           bio_buf f = canonical_header (nat n) (nat s) (nat r) (length (concat ds)) @ concat ds"
proof -
  define w0 where "w0 = (wave_open_w bio_new)\<lparr>ww_nchannels := nat n, ww_sampwidth := nat s,
                     ww_framerate := nat r\<rparr>"
  have set: "ww_nchannels w0 \<noteq> 0" "ww_sampwidth w0 \<noteq> 0" "ww_framerate w0 \<noteq> 0"
    and fits: "header_fits (ww_nchannels w0) (ww_sampwidth w0) (ww_framerate w0)
                 (length [] + length (concat ds))"
    using assms by (simp_all add: w0_def wave_open_w_def)
  have h0: "ww_holds w0 []" unfolding w0_def by (rule holds_configured)
  obtain w where run: "ww_run w0 (map WriteFrames ds) = Inr w"
    and h: "ww_holds w (concat ds)" and p: "same_params w0 w"
    using holds_run [OF h0 set fits] by auto
  have set': "ww_nchannels w \<noteq> 0" "ww_sampwidth w \<noteq> 0" "ww_framerate w \<noteq> 0"
    and fits': "header_fits (ww_nchannels w) (ww_sampwidth w) (ww_framerate w) (length (concat ds))"
    using set fits p by (simp_all add: same_params_def)
  obtain f where "wave_close w = Inr f"
    and "bio_buf f = canonical_header (ww_nchannels w) (ww_sampwidth w) (ww_framerate w)
                       (length (concat ds)) @ concat ds"
    using holds_close [OF h set' fits'] by blast
  then show ?thesis
    using run p configured_run [OF assms(1-4)] by (simp add: w0_def same_params_def wave_open_w_def)
qed

lemma ww_writeframes_concat_witness:
  "\<exists>f. sbind (ww_run (wave_open_w bio_new)
              [SetNChannels 1, SetSampWidth 2, SetFrameRate 8000,
               WriteFrames [1, 2, 3], WriteFrames [4], WriteFrames [5, 6]])
         wave_close = Inr f \<and>
       bio_buf f = canonical_header 1 2 8000 6 @ [1, 2, 3, 4, 5, 6]"
proof -
  have l: "length (concat [[1, 2, 3], [4], [5, 6::byte]]) = 6" by simp
  show ?thesis
    using ww_writeframes_concat [of 1 2 8000 "[[1, 2, 3], [4], [5, 6]]"]
    unfolding l by (simp add: header_fits_def)
qed

end
