(* ===== verification/Spec2Isabelle.thy ===== *)
theory Spec2Isabelle
  imports Handler WaveStream
begin

text \<open>
  \<^bold>\<open>A model of the SpeechFlow speech-to-text engine.\<close>

  The engine (\<open>src/stt-engine/\<close>) is one HTTP route, \<open>POST /stt\<close>, in two
  interchangeable front ends: \<open>gstt_fastapi_rest.py\<close> (FastAPI) and
  \<open>gstt_flask.py\<close> (Flask). The request body is raw PCM: 16-bit signed
  little-endian mono samples at 48 kHz. The handler \<open>speech_to_text\<close> rejects an
  empty body, wraps the PCM in a WAV container with \<open>pcm_to_wav\<close> (Python's
  \<open>struct\<close>, \<open>io.BytesIO\<close> and \<open>wave\<close> modules), reads the container back
  with \<open>debug_wav_info\<close> to measure its duration, rejects less than 0.3 s, rewinds
  the stream and passes it to \<open>speech_recognition\<close>'s Google recogniser with the
  language \<open>ko-KR\<close>. The text comes back as JSON; failures are reported with
  status 400 (client error) or 500 (server error).

  \<^bold>\<open>Theories.\<close> Each theory models one part, from the bottom up.
  \<^item> \<open>Prelude\<close>: bytes as \<open>8 word\<close>, little-endian encoding \<open>le_bytes\<close> and
    decoding \<open>le_value\<close> with their round trip, ASCII tags, the exception type
    \<open>py_exc\<close> (with the \<open>ValueError\<close> payloads of \<open>pcm_to_wav\<close> and the
    error bodies of the handlers), and \<open>sbind\<close>, which sequences code that may
    raise: a value of \<open>py_exc + 'a\<close>, \<open>Inl\<close> being the exception.
  \<^item> \<open>PyStruct\<close>: the PCM decoder. \<open>struct.unpack\<close> / \<open>struct.pack\<close> with the
    format \<open>'<' + 'h' * n\<close> of \<open>pcm_to_wav\<close> line 26 (\<open>struct_unpack_h\<close>,
    \<open>struct_pack_h\<close>; a sample \<open>unpack_h\<close> is \<open>sint\<close> of a 16-bit word),
    and the codes \<open>H\<close>, \<open>L\<close>, \<open>4s\<close> of the WAV header (\<open>struct_pack\<close>).
  \<^item> \<open>BytesIO\<close>: \<open>io.BytesIO\<close> as a record of a buffer and a position;
    \<open>write\<close> overwrites from the position and zero-fills a gap, \<open>seek\<close> moves.
  \<^item> \<open>WaveWrite\<close>: the WAV encoder, \<open>wave.Wave_write\<close> as a record of its
    attributes, with the setters and their guards, \<open>_write_header\<close>,
    \<open>_ensure_header_written\<close>, \<open>writeframesraw\<close> / \<open>writeframes\<close>,
    \<open>_patchheader\<close> and \<open>close\<close>; \<open>canonical_header\<close> is the 44-byte header.
  \<^item> \<open>WaveWriteMachine\<close>: the writer as a state machine. \<open>ww_step\<close> dispatches
    the public methods (\<open>ww_call\<close>), \<open>ww_run\<close> runs a sequence of calls until one
    raises, and \<open>ww_reach\<close> (inductive) is the set of writers reachable from
    \<open>wave.open(io.BytesIO(), 'wb')\<close>. The invariant \<open>ww_inv\<close> describes the
    stream in every reachable state.
  \<^item> \<open>WaveStream\<close>: what the stream holds when frames arrive in several
    \<open>writeframes\<close> calls (\<open>ww_holds\<close>: the canonical header with the writer's
    current data length, then exactly the bytes written so far).
  \<^item> \<open>WaveRead\<close>: \<open>wave.Wave_read\<close>'s header parser (\<open>wave_read\<close>), the
    \<open>RIFF\<close>/\<open>WAVE\<close> check and the chunk walk \<open>scan_chunks\<close>.
  \<^item> \<open>Gateway\<close>: the local half of the transcription gateway,
    \<open>speech_recognition\<close>'s \<open>sr.AudioFile\<close> (\<open>audio_file_open\<close>: \<open>wave.open\<close>
    and the channel assertion) and \<open>Recognizer.record\<close> (\<open>record_loop\<close>, reading
    4096 frames at a time through the data chunk, \<open>wave_readframes\<close> and
    \<open>chunk_read\<close>), giving an \<open>audio_data\<close>; \<open>sr_recognize\<close> then calls Google.
    Google's service and \<open>audioop.tomono\<close> are parameters.
  \<^item> \<open>Convert\<close>: the program's own \<open>pcm_to_wav\<close> (both files, lines 11--36 and
    12--37, which are identical), with the \<open>with wave.open(...)\<close> block as
    \<open>wave_write_block\<close>, whose exit \<open>with_wave_exit\<close> calls \<open>close()\<close>; and
    \<open>debug_wav_info\<close> (lines 38--48), the audio validator. The Flask file's own
    copies are \<open>pcm_to_wav_flask\<close> and \<open>debug_wav_info_flask\<close>; their code is
    the same, and so are the definitions.
  \<^item> \<open>Handler\<close>: \<open>speech_to_text\<close> of both front ends,
    \<open>fastapi_speech_to_text\<close> (lines 50--101) and \<open>flask_speech_to_text\<close>
    (lines 39--92), each the \<open>except Exception\<close> around a route body
    (\<open>fastapi_route_body\<close>, \<open>flask_route_body\<close>). The recogniser is a parameter
    \<open>recognize\<close>; \<open>sr_recognize\<close> of the gateway is the one the code builds, and
    the claims C30, C31 instantiate it.

  \<^bold>\<open>What is shown.\<close> For the front ends, Flask maps every outcome to the status of
  the error taxonomy (C3--C8, C10). FastAPI answers 200 in the same cases, but every
  error, the 400 ones included, becomes 500 (C1, C28), because its outer
  \<open>except Exception\<close> catches the \<open>HTTPException\<close>s raised inside the
  \<open>try\<close>; apart from that, FastAPI refines Flask (C2, C11). The recogniser sees the
  whole container and nothing else (C10). For the pipeline, \<open>pcm_to_wav\<close> produces
  a WAV that the reader parses back to one channel, 16 bits, the rate,
  \<open>len // 2\<close> frames and the body itself (C12), and whose duration is samples over
  rate (C13). The sample conversion of line 26 is the identity on even bodies and an
  error on odd ones (C14, C15, C17). The errors of \<open>pcm_to_wav\<close> are C7, C8
  and C16, and at 48 kHz it accepts exactly the non-empty even bodies of at most
  4294967258 bytes (C9). For the library models: the reader's chunk walk (C18, C19),
  the writer's parameters, frozen once data is written (C20), and the stream's writes,
  read back (C21).
  For the writer as a machine: the invariant holds after any sequence of calls (C22);
  a successful \<open>close()\<close> leaves size fields equal to the bytes written (C23); a
  configured writer never gets stuck on whole frames that fit (C27); and however the
  frames are split over \<open>writeframes\<close> calls, \<open>close()\<close> leaves the canonical header
  of their total length followed by their concatenation (C34, in \<open>WaveStream\<close>).
  The reader's loop stops after at most \<open>len // 8 + 1\<close> rounds (C24). Every
  response is well typed, a transcript only with 200 (C25). The recogniser is
  consulted only once validation passes (C26). The FastAPI answer to scenario D is
  500 (C28). For the gateway: \<open>record\<close>'s chunked loop reads exactly the data chunk
  (C29); Google receives the request's own samples at 48000 Hz, 16 bits (C30), so
  both front ends answer with Google's text for them (C31). Across the writer and
  the program, every stream \<open>pcm_to_wav\<close> returns, for any rate and body, is
  rewound and has size fields equal to the body (C32). The reader skips unknown
  chunks with their pad byte (C33).

  \<^bold>\<open>Numbers.\<close> Sizes are \<open>nat\<close>, Python ints are \<open>int\<close>, and bytes are
  \<open>8 word\<close>; the 16-bit samples are read as \<open>sint\<close> of a \<open>16 word\<close>. The header
  fields are 32-bit: a body longer than 4294967259 bytes makes \<open>struct.pack\<close>
  raise, which the model keeps (\<open>header_fits\<close>, C8). The duration is
  \<open>frames / float(framerate)\<close>, a double; the model uses the real quotient. At
  48 kHz, and for any rate below about \<open>10^15\<close>, the test \<open>duration < 0.3\<close>
  agrees with the exact one. If \<open>10 * frames \<noteq> 3 * rate\<close>, the two sides differ
  by at least \<open>1 / (10 * rate)\<close>, far more than the rounding of the division and of
  the literal \<open>0.3\<close>; if they are equal, both round to the same double. So the
  threshold is exactly 14400 samples (\<open>duration_short_iff\<close>).

  \<^bold>\<open>Termination.\<close> There is no fuel. Every loop is a structural recursion, and
  the reader's chunk loop \<open>scan_chunks\<close> is a \<open>function\<close> whose termination is
  proved by the measure \<open>length rest\<close>: each step consumes at least the 8 bytes of
  a chunk header, because the walk stops when fewer remain. C24 bounds the rounds:
  \<open>scan_chunks_fuel\<close>, the same loop cut off after a given number of rounds, gives
  the loop's result with \<open>len // 8 + 1\<close> rounds.

  \<^bold>\<open>Not modelled.\<close> The web frameworks (routing, \<open>request.body()\<close>, JSON
  rendering): a response is a status and a structured body, not the text of its
  message. Also left out: logging and \<open>print\<close>; \<open>traceback\<close>; the server
  start-up under \<open>__main__\<close>; \<open>save_debug_wav\<close>, which is commented out; the
  Google's service itself (the parameter \<open>google\<close> of \<open>sr_recognize\<close>: an HTTP
  request to an external provider), \<open>audioop.tomono\<close> for stereo audio (a
  parameter; the program writes mono only), and the AIFF and FLAC readers
  \<open>sr.AudioFile\<close> falls back to when \<open>wave\<close> fails (\<open>audio_file_open\<close>
  goes straight to the \<open>ValueError\<close> they end in for a stream that is none of
  the three; the FLAC path runs an external converter on the rest of the stream).
  The program always hands over a WAV stream, so no property depends on them;
  \<open>wav_size\<close> (line 76 / 67), which is only printed;
  and, in the reader, formats other than PCM (\<open>WAVE_FORMAT_EXTENSIBLE\<close>), which
  the program's own files never contain. When a call inside the \<open>with\<close> block
  raises, the model closes the writer as it was before that call; the writer
  \<open>writeframes\<close> leaves behind after its only failure, a \<open>struct.error\<close> while
  packing the header, raises the same \<open>struct.error\<close> again from \<open>close()\<close>, so
  the exception \<open>pcm_to_wav\<close> reports is the same.
\<close>

text \<open>
  C12. \<open>pcm_to_wav\<close> round-trips through \<open>wave\<close>: for a positive rate and a
  non-empty even body that fits the header, the stream it returns is at position 0,
  the WAV reader finds one channel, two-byte samples, the rate and \<open>len // 2\<close>
  frames in it, and the samples start at byte 44 and are the body itself.
\<close>

theorem pcm_to_wav_roundtrip:
  assumes "pcm_data \<noteq> []" "even (length pcm_data)" "0 < sample_rate"
    and "header_fits 1 2 (nat sample_rate) (length pcm_data)"
  shows "\<exists>f. pcm_to_wav pcm_data sample_rate = Inr f \<and> bio_pos f = 0 \<and>
           wave_read (bio_buf f) =
             Inr (\<lparr>wp_nchannels = 1, wp_sampwidth = 2, wp_framerate = nat sample_rate,
                    wp_nframes = length pcm_data div 2\<rparr>, 44) \<and>
           drop 44 (bio_buf f) = pcm_data"
proof -
  have "wave_read (canonical_header 1 2 (nat sample_rate) (length pcm_data) @ pcm_data) =
          Inr (\<lparr>wp_nchannels = 1, wp_sampwidth = 2, wp_framerate = nat sample_rate,
                 wp_nframes = length pcm_data div (1 * 2)\<rparr>, 44)"
    using assms(4) by (rule wave_read_canonical) simp_all
  then show ?thesis
    using pcm_to_wav_ok [OF assms] by (simp add: wav_container_def)
qed

lemma pcm_to_wav_roundtrip_witness:
  "\<exists>f. pcm_to_wav (replicate 4 0) 16000 = Inr f \<and> bio_pos f = 0 \<and>
     wave_read (bio_buf f) =
       Inr (\<lparr>wp_nchannels = 1, wp_sampwidth = 2, wp_framerate = 16000, wp_nframes = 2\<rparr>, 44) \<and>
     drop 44 (bio_buf f) = replicate 4 0"
  using pcm_to_wav_roundtrip [of "replicate 4 0" 16000]
  by (simp add: header_fits_def)

text \<open>
  C13. The duration \<open>debug_wav_info\<close> measures on the output of \<open>pcm_to_wav\<close> is
  the number of samples over the rate, and the stream is left just after the header.
\<close>

theorem pcm_duration:
  assumes "pcm_data \<noteq> []" "even (length pcm_data)" "0 < sample_rate"
    and "header_fits 1 2 (nat sample_rate) (length pcm_data)"
  shows "\<exists>f. pcm_to_wav pcm_data sample_rate = Inr f \<and>
           debug_wav_info f = Inr (real (length pcm_data div 2) / real (nat sample_rate),
                                   f\<lparr>bio_pos := 44\<rparr>)"
  using pcm_to_wav_ok [OF assms] debug_wav_info_container [OF assms(3,4)] by simp

lemma pcm_duration_witness:
  "\<exists>f. pcm_to_wav (replicate 96000 0) 48000 = Inr f \<and>
     debug_wav_info f = Inr (1, f\<lparr>bio_pos := 44\<rparr>)"
  using pcm_duration [of "replicate 96000 0" 48000]
  by (simp add: header_fits_def)


text \<open>
  C32. Whatever the rate and whatever the body, when \<open>pcm_to_wav\<close> returns a stream, the
  stream is rewound, holds a 44-byte header and then exactly the body, and its two size
  fields say so: the writer's invariant, carried through the \<open>with\<close> block.
\<close>

theorem pcm_to_wav_sizes:
  assumes "pcm_to_wav pcm_data sample_rate = Inr f"
  shows "bio_pos f = 0 \<and> length (bio_buf f) = 44 + length pcm_data \<and>
         header_sizes (bio_buf f) (length pcm_data)"
proof -
  obtain f0 where blk: "wave_write_block bio_new sample_rate pcm_data = Inr f0"
    and f: "f = bio_seek f0 0"
    using assms by (auto simp: pcm_to_wav_def split: if_splits sum.splits)
  obtain w1 w2 w3 w4 where s1: "wave_setnchannels (wave_open_w bio_new) 1 = Inr w1"
    and s2: "wave_setsampwidth w1 2 = Inr w2" and s3: "wave_setframerate w2 sample_rate = Inr w3"
    and wr: "wave_writeframes w3 pcm_data = Inr w4" and cl: "wave_close w4 = Inr f0"
    using wave_write_block_Inr [OF blk] by blast
  have run: "ww_run (wave_open_w bio_new) [SetNChannels 1, SetSampWidth 2, SetFrameRate sample_rate] = Inr w3"
    using s1 s2 s3 by simp
  have inv3: "ww_inv w3"
    using ww_reach_inv [OF ww_run_reach [OF ww_reach.opened run]] .
  have dw3: "ww_datawritten w3 = 0"
    using s1 s2 s3
    by (auto simp: wave_setnchannels_def wave_setsampwidth_def wave_setframerate_def wave_open_w_def
        split: if_splits)
  note w4 = writeframes_inv [OF inv3 wr]
  have "ww_inv w4" using w4 by simp
  note c = close_inv [OF this cl]
  show ?thesis using c w4 dw3 by (simp add: f)
qed

lemma pcm_to_wav_sizes_witness:
  "bio_pos (wav_container 16000 [1, 0]) = 0 \<and>
   length (bio_buf (wav_container 16000 [1, 0])) = 44 + length [1::byte, 0] \<and>
   header_sizes (bio_buf (wav_container 16000 [1, 0])) (length [1::byte, 0])"
proof -
  have "pcm_to_wav [1, 0] 16000 = Inr (wav_container 16000 [1, 0])"
    by (rule pcm_to_wav_ok) (simp_all add: header_fits_def)
  then show ?thesis by (rule pcm_to_wav_sizes)
qed

end
